theory Spec2Isabelle
  imports
    Complex_Main
    "HOL-Library.AList"
    "HOL-Library.Char_ord"
    "HOL-Library.List_Lexorder"
    "HOL-Library.Product_Lexorder"
begin

section \<open>Tables, cells and pandas helpers\<close>

text \<open>
  The notebooks pass pandas data frames from cell to cell. A data frame is modelled as the
  list of its rows, a row as a record of its columns, and a nullable column (NaN, None) as
  an \<open>option\<close>. A Python \<open>dict\<close> is an association list: \<open>AList.update\<close> overwrites
  the value of a key where it stands and appends a new key, as \<open>d[k] = v\<close> does.
\<close>

type_synonym concept = string

type_synonym ('k, 'v) dict = "('k \<times> 'v) list"

definition dropna :: "'a option list \<Rightarrow> 'a list" where
  \<comment> \<open>\<open>Series.dropna()\<close>\<close>
  "dropna xs = List.map_filter id xs"

definition unique :: "'a list \<Rightarrow> 'a list" where
  \<comment> \<open>\<open>Series.unique()\<close>: the first occurrence of every value, in order of appearance\<close>
  "unique xs = rev (remdups (rev xs))"

definition isin :: "'a option \<Rightarrow> 'a list \<Rightarrow> bool" where
  \<comment> \<open>\<open>Series.isin(values)\<close> for one cell, \<open>values\<close> holding no NaN: a NaN cell is in nothing\<close>
  "isin c vals = (case c of None \<Rightarrow> False | Some v \<Rightarrow> v \<in> set vals)"

definition astype_int :: "bool \<Rightarrow> int" where
  \<comment> \<open>\<open>.astype(int)\<close> of a boolean column\<close>
  "astype_int b = (if b then 1 else 0)"

section \<open>Notebook 17: variant expansion\<close>

text \<open>
  \<^verbatim>\<open>
  manual_variants = {
      "strawberry": ["strawberries"],
      "honey": ["flower honey", "organic honey"],
      "tomato": ["tomatoes", "roma tomato"],
      "tuna": ["canned tuna", "tuna chunks"]
  }
  \<close>
\<close>

definition manual_variants :: "(concept, string list) dict" where
  "manual_variants =
     [(''strawberry'', [''strawberries'']),
      (''honey'', [''flower honey'', ''organic honey'']),
      (''tomato'', [''tomatoes'', ''roma tomato'']),
      (''tuna'', [''canned tuna'', ''tuna chunks''])]"

text \<open>
  \<^verbatim>\<open>
  variant_map = {}
  for concept, variants in manual_variants.items():
      for alt in variants:
          variant_pairs.append((concept, alt))
          variant_map[alt] = concept
  \<close>
  The inner loop and the outer loop, with the dictionary passed along.
\<close>

fun add_variants :: "concept \<Rightarrow> string list \<Rightarrow> (string, concept) dict \<Rightarrow> (string, concept) dict" where
  "add_variants c [] vm = vm"
| "add_variants c (alt # alts) vm = add_variants c alts (AList.update alt c vm)"

fun build_variant_map :: "(concept, string list) dict \<Rightarrow> (string, concept) dict \<Rightarrow> (string, concept) dict" where
  "build_variant_map [] vm = vm"
| "build_variant_map ((c, variants) # rest) vm = build_variant_map rest (add_variants c variants vm)"

definition variant_map :: "(string, concept) dict" where
  "variant_map = build_variant_map manual_variants []"

text \<open>
  \<^verbatim>\<open>
  variant_to_concept = {v: k for k, v in variant_map.items()}
  \<close>
  The comprehension walks the items \<open>(k, v)\<close> of its argument and stores \<open>k\<close> under the key \<open>v\<close>.
\<close>

fun invert_items :: "('k, 'v) dict \<Rightarrow> ('v, 'k) dict \<Rightarrow> ('v, 'k) dict" where
  "invert_items [] d = d"
| "invert_items ((k, v) # kvs) d = invert_items kvs (AList.update v k d)"

definition variant_to_concept :: "(string, concept) dict \<Rightarrow> (concept, string) dict" where
  "variant_to_concept vm = invert_items vm []"

text \<open>
  \<^verbatim>\<open>
  def resolve_variant(concept):
      if pd.isna(concept):
          return concept
      return variant_to_concept.get(concept, concept)
  \<close>
\<close>

definition resolve_variant :: "(string, string) dict \<Rightarrow> string option \<Rightarrow> string option" where
  "resolve_variant v2c concept =
     (case concept of
        None \<Rightarrow> None
      | Some c \<Rightarrow> (case map_of v2c c of None \<Rightarrow> Some c | Some r \<Rightarrow> Some r))"

section \<open>Notebook 09: waste and markdown flags, priority score\<close>

record product =
  store :: int
  article :: int
  product_name :: string
  product_concept :: "concept option"

record waste_row =
  w_store :: int
  w_concept :: "concept option"
  items_wasted :: int
  value_wasted :: real

record markdown_row =
  md_store :: int
  md_concept :: "concept option"

record prioritized_product = product +
  waste_flag :: int
  markdown_flag :: int
  priority_score :: int

text \<open>
  \<^verbatim>\<open>
  waste_concepts = df_waste["product_concept"].dropna().unique()
  markdown_concepts = df_markdown["product_concept"].dropna().unique()
  \<close>
  Both are taken over the whole snapshot; no store is read.
\<close>

definition waste_concepts :: "waste_row list \<Rightarrow> concept list" where
  "waste_concepts df_waste = unique (dropna (map w_concept df_waste))"

definition markdown_concepts :: "markdown_row list \<Rightarrow> concept list" where
  "markdown_concepts df_markdown = unique (dropna (map md_concept df_markdown))"

text \<open>
  \<^verbatim>\<open>
  df_products["waste_flag"] = df_products["product_concept"].isin(waste_concepts).astype(int)
  df_products["markdown_flag"] = df_products["product_concept"].isin(markdown_concepts).astype(int)
  df_products["priority_score"] = df_products["waste_flag"] + df_products["markdown_flag"]
  \<close>
  One row of the three column assignments, then the whole table.
\<close>

definition priority_scorer :: "concept list \<Rightarrow> concept list \<Rightarrow> product \<Rightarrow> prioritized_product" where
  "priority_scorer wcs mcs p =
     (let wflag = astype_int (isin (product_concept p) wcs);
          mflag = astype_int (isin (product_concept p) mcs)
      in product.extend p
           \<lparr>waste_flag = wflag, markdown_flag = mflag, priority_score = wflag + mflag\<rparr>)"

definition products_with_priority ::
  "product list \<Rightarrow> waste_row list \<Rightarrow> markdown_row list \<Rightarrow> prioritized_product list" where
  "products_with_priority df_products df_waste df_markdown =
     map (priority_scorer (waste_concepts df_waste) (markdown_concepts df_markdown)) df_products"

section \<open>More pandas helpers: groups, means, rounding\<close>

definition groupby_keys :: "('r \<Rightarrow> 'k::linorder) \<Rightarrow> 'r list \<Rightarrow> 'k list" where
  \<comment> \<open>the group keys of \<open>df.groupby(cols)\<close> (\<open>sort=True\<close>): every key once, ascending\<close>
  "groupby_keys key rows = sort (remdups (map key rows))"

definition nunique :: "'a list \<Rightarrow> nat" where
  \<comment> \<open>\<open>Series.nunique()\<close> of a column without NaN\<close>
  "nunique xs = length (remdups xs)"

definition mean :: "real list \<Rightarrow> real" where
  \<comment> \<open>\<open>Series.mean()\<close> of a column without NaN, the floats read as reals\<close>
  "mean xs = sum_list xs / real (length xs)"

definition rint :: "real \<Rightarrow> int" where
  \<comment> \<open>round to the nearest integer, a tie to the even one (numpy's \<open>rint\<close>)\<close>
  "rint x =
     (let f = \<lfloor>x\<rfloor>; d = x - of_int f
      in if d < 1 / 2 then f else if 1 / 2 < d then f + 1 else if even f then f else f + 1)"

definition round2 :: "real \<Rightarrow> real" where
  \<comment> \<open>Python's \<open>round(x, 2)\<close>, the float read as a real: the nearest multiple of 0.01\<close>
  "round2 x = of_int (rint (x * 100)) / 100"

section \<open>Floating point\<close>

text \<open>
  The scores of Notebook 20 are columns of IEEE 754 doubles, and every operation on them
  rounds its exact result to the nearest double, a tie to the even significand. A finite
  double is a real number, and \<open>binary64 x\<close> is the double nearest to the real \<open>x\<close>:
  \<open>expo x\<close> is the exponent of a positive \<open>x\<close>, the integer \<open>e\<close> with
  \<open>2 powi e \<le> x < 2 powi (e + 1)\<close>; the doubles around \<open>x\<close> are the multiples of \<open>ulp x\<close>,
  which has 52 bits after the leading one, and below \<open>2 powi (- 1022)\<close> the spacing stays
  that of the subnormal numbers. Overflow is not modelled: a result of magnitude
  \<open>2 powi 1024\<close> or more is an infinity in the code and a real here, so the model is that of
  the code where every intermediate result is below that, as it is for the scores bounded
  in the properties.
\<close>

function expo :: "real \<Rightarrow> int" where
  "expo x = (if 2 \<le> x then expo (x / 2) + 1 else if 0 < x \<and> x < 1 then expo (x * 2) - 1 else 0)"
  by pat_completeness auto
termination
proof (relation "measure (\<lambda>x. nat \<bar>\<lfloor>log 2 x\<rfloor>\<bar>)")
  show "wf (measure (\<lambda>x. nat \<bar>\<lfloor>log 2 x\<rfloor>\<bar>))" by simp
next
  fix x :: real
  assume x: "2 \<le> x"
  then have "log 2 (x / 2) = log 2 x - 1" by (simp add: log_divide)
  then have fl: "\<lfloor>log 2 (x / 2)\<rfloor> = \<lfloor>log 2 x\<rfloor> - 1" by simp
  from x have "1 \<le> log 2 x" by (simp add: le_log_iff)
  then have "1 \<le> \<lfloor>log 2 x\<rfloor>" by linarith
  with fl show "(x / 2, x) \<in> measure (\<lambda>x. nat \<bar>\<lfloor>log 2 x\<rfloor>\<bar>)" by simp
next
  fix x :: real
  assume "\<not> 2 \<le> x" and x: "0 < x \<and> x < 1"
  then have "log 2 (x * 2) = log 2 x + 1" by (simp add: log_mult)
  then have fl: "\<lfloor>log 2 (x * 2)\<rfloor> = \<lfloor>log 2 x\<rfloor> + 1" by simp
  from x have "log 2 x < 0" by simp
  then have "\<lfloor>log 2 x\<rfloor> \<le> - 1" by linarith
  with fl show "(x * 2, x) \<in> measure (\<lambda>x. nat \<bar>\<lfloor>log 2 x\<rfloor>\<bar>)" by simp
qed

declare expo.simps [simp del]

definition ulp :: "real \<Rightarrow> real" where
  \<comment> \<open>the distance between the doubles around \<open>x\<close>: 52 bits after the leading one\<close>
  "ulp x = 2 powi (max (expo \<bar>x\<bar>) (- 1022) - 52)"

definition binary64 :: "real \<Rightarrow> real" where
  "binary64 x = of_int (rint (x / ulp x)) * ulp x"

definition unit_roundoff :: real where
  "unit_roundoff = 1 / 2 ^ 53"

definition np_round2 :: "real \<Rightarrow> real" where
  \<comment> \<open>\<open>Series.round(2)\<close>, which is numpy's: multiply by 100.0, \<open>rint\<close>, divide by 100.0\<close>
  "np_round2 x = binary64 (of_int (rint (binary64 (x * 100))) / 100)"

section \<open>Notebook 20: ranking recipes with boosting\<close>

text \<open>
  \<open>df_full\<close> is the table of scored matches after the product context and the priority
  flags have been merged in and the column \<open>semantic_score\<close> has been filled. The rows
  modelled are those whose store, recipe, ingredient, scores and flags are present.
\<close>

record full_row =
  m_store :: int
  m_recipe :: string
  m_ingredient :: string
  m_product_article :: string
  fuzzy_score :: real
  semantic_score :: real
  m_waste_flag :: int
  m_markdown_flag :: int

record recipe_row =
  r_row_id :: int
  r_recipe :: string
  r_ingredient :: string
  r_ingredient_concept :: "concept option"

text \<open>
  \<^verbatim>\<open>
  WEIGHT_FUZZY = 0.6
  WEIGHT_SEMANTIC = 0.4
  PRIORITY_BONUS = 5  # additive
  df_full["final_score"] = (
      WEIGHT_FUZZY * df_full["fuzzy_score"] +
      WEIGHT_SEMANTIC * 100 * df_full["semantic_score"] +
      PRIORITY_BONUS * (df_full["waste_flag"] + df_full["markdown_flag"])
  )
  df_full["final_score"] = df_full["final_score"].round(2)
  \<close>
  The literals 0.6 and 0.4 are the doubles nearest to them. Python evaluates the expression
  from the left, every product and sum rounded: \<open>WEIGHT_FUZZY * fuzzy_score\<close>, then
  \<open>WEIGHT_SEMANTIC * 100\<close> (a product of two Python numbers) times \<open>semantic_score\<close>, then
  the sum of the two, then that sum plus the bonus. The flags are integers, and so is the
  bonus until it is added to the column of floats.
\<close>

definition WEIGHT_FUZZY :: real where
  "WEIGHT_FUZZY = binary64 (6 / 10)"

definition WEIGHT_SEMANTIC :: real where
  "WEIGHT_SEMANTIC = binary64 (4 / 10)"

definition PRIORITY_BONUS :: int where
  "PRIORITY_BONUS = 5"

definition boosted_sum :: "real \<Rightarrow> real \<Rightarrow> int \<Rightarrow> int \<Rightarrow> real" where
  \<comment> \<open>the first assignment to \<open>final_score\<close>\<close>
  "boosted_sum fuzzy semantic wflag mflag =
     binary64 (binary64 (binary64 (WEIGHT_FUZZY * fuzzy)
                         + binary64 (binary64 (WEIGHT_SEMANTIC * 100) * semantic))
               + binary64 (of_int (PRIORITY_BONUS * (wflag + mflag))))"

definition final_score :: "real \<Rightarrow> real \<Rightarrow> int \<Rightarrow> int \<Rightarrow> real" where
  \<comment> \<open>the column as it stands after the second assignment\<close>
  "final_score fuzzy semantic wflag mflag = np_round2 (boosted_sum fuzzy semantic wflag mflag)"

definition spec_final_score :: "real \<Rightarrow> real \<Rightarrow> int \<Rightarrow> int \<Rightarrow> real" where
  \<comment> \<open>the score as the specification words it, in exact arithmetic\<close>
  "spec_final_score fuzzy semantic wflag mflag =
     6 / 10 * fuzzy + 4 / 10 * (100 * semantic) + 5 * of_int (wflag + mflag)"

definition final_score_of :: "full_row \<Rightarrow> real" where
  "final_score_of m = final_score (fuzzy_score m) (semantic_score m) (m_waste_flag m) (m_markdown_flag m)"

text \<open>
  \<^verbatim>\<open>
  df_total_ingredients = df_recipes.groupby("recipe")["ingredient"].nunique().reset_index()
  df_total_ingredients = df_total_ingredients.rename(columns={"ingredient": "n_ingredients"})
  df_agg = (
      df_full.groupby(["store", "recipe"])
      .agg(matched_ingredients=("ingredient", "nunique"), avg_score=("final_score", "mean"))
      .reset_index()
  )
  df_agg = df_agg.merge(df_total_ingredients, on="recipe", how="left")
  df_agg["coverage"] = df_agg["matched_ingredients"] / df_agg["n_ingredients"]
  \<close>
  The left merge leaves \<open>n_ingredients\<close>, and with it \<open>coverage\<close>, NaN for a recipe that
  \<open>df_recipes\<close> does not hold.
\<close>

record agg_row =
  a_store :: int
  a_recipe :: string
  matched_ingredients :: nat
  avg_score :: real
  n_ingredients :: "nat option"
  coverage :: "real option"

definition df_total_ingredients :: "recipe_row list \<Rightarrow> (string, nat) dict" where
  "df_total_ingredients df_recipes =
     map (\<lambda>r. (r, nunique (map r_ingredient (filter (\<lambda>x. r_recipe x = r) df_recipes))))
       (groupby_keys r_recipe df_recipes)"

definition agg_group :: "full_row list \<Rightarrow> recipe_row list \<Rightarrow> int \<times> string \<Rightarrow> agg_row" where
  "agg_group df_full df_recipes k =
     (let g = filter (\<lambda>m. (m_store m, m_recipe m) = k) df_full;
          matched = nunique (map m_ingredient g);
          n = map_of (df_total_ingredients df_recipes) (snd k)
      in \<lparr>a_store = fst k, a_recipe = snd k, matched_ingredients = matched,
          avg_score = mean (map final_score_of g), n_ingredients = n,
          coverage = map_option (\<lambda>n. real matched / real n) n\<rparr>)"

definition df_agg :: "full_row list \<Rightarrow> recipe_row list \<Rightarrow> agg_row list" where
  "df_agg df_full df_recipes =
     map (agg_group df_full df_recipes) (groupby_keys (\<lambda>m. (m_store m, m_recipe m)) df_full)"

text \<open>
  \<^verbatim>\<open>
  min_avg_score = 40
  df_ranked = df_agg[(df_agg["coverage"] == 1.0) & (df_agg["avg_score"] >= min_avg_score)].copy()
  df_ranked = df_ranked.sort_values(["store", "avg_score"], ascending=[True, False]).reset_index(drop=True)
  \<close>
  A comparison with NaN is false. \<open>sort_values\<close> on several columns sorts on the tuple of
  keys and keeps rows with equal keys in the order they had (pandas sorts them with a
  lexicographic, stable sort); \<open>sort_key\<close> is that sort.
\<close>

definition min_avg_score :: real where
  "min_avg_score = 40"

definition df_ranked_filter :: "agg_row list \<Rightarrow> agg_row list" where
  "df_ranked_filter agg = filter (\<lambda>a. coverage a = Some 1 \<and> min_avg_score \<le> avg_score a) agg"

definition recipe_store_ranked :: "full_row list \<Rightarrow> recipe_row list \<Rightarrow> agg_row list" where
  "recipe_store_ranked df_full df_recipes =
     sort_key (\<lambda>a. (a_store a, - avg_score a)) (df_ranked_filter (df_agg df_full df_recipes))"

section \<open>Notebook 10: store-level meal boxes\<close>

text \<open>
  \<open>df_matches\<close> is the table written by Notebook 07: one row per ingredient and store,
  with the flag \<open>match_available\<close>. It has no column \<open>recipe\<close>, so the patch merges it in:
  \<^verbatim>\<open>
  if "recipe" not in df_matches.columns:
      df_matches = df_matches.merge(df_recipes[["ingredient", "recipe"]], on="ingredient", how="left")
  df_available = df_matches[df_matches["match_available"] == True].copy()
  \<close>
  A left merge keeps a row without a partner, with NaN in the new column.
\<close>

record store_match =
  sm_store :: int
  sm_ingredient :: string
  sm_ingredient_concept :: "concept option"
  match_available :: bool

record recipe_match = store_match +
  sm_recipe :: "string option"

definition merge_recipe :: "store_match list \<Rightarrow> recipe_row list \<Rightarrow> recipe_match list" where
  "merge_recipe df_matches df_recipes =
     concat (map (\<lambda>m.
       (let rs = filter (\<lambda>r. r_ingredient r = sm_ingredient m) df_recipes
        in if rs = [] then [store_match.extend m \<lparr>sm_recipe = None\<rparr>]
           else map (\<lambda>r. store_match.extend m \<lparr>sm_recipe = Some (r_recipe r)\<rparr>) rs)) df_matches)"

definition df_available :: "recipe_match list \<Rightarrow> recipe_match list" where
  "df_available dfm = filter match_available dfm"

text \<open>
  \<^verbatim>\<open>
  ingredients_per_recipe = df_matches.groupby("recipe")["ingredient"].nunique().to_dict()
  grouped = df_available.groupby(["store", "recipe"])["ingredient"].nunique().reset_index()
  grouped["total_required"] = grouped["recipe"].map(ingredients_per_recipe)
  grouped["complete"] = grouped["ingredient"] == grouped["total_required"]
  df_complete = grouped[grouped["complete"]].copy()
  \<close>
  \<open>groupby\<close> drops the rows whose key is NaN.
\<close>

definition ingredients_per_recipe :: "recipe_match list \<Rightarrow> string \<Rightarrow> nat" where
  "ingredients_per_recipe dfm r =
     nunique (map sm_ingredient (filter (\<lambda>m. sm_recipe m = Some r) dfm))"

definition store_recipe_keys :: "recipe_match list \<Rightarrow> (int \<times> string) list" where
  \<comment> \<open>the keys of \<open>groupby(["store", "recipe"])\<close>\<close>
  "store_recipe_keys rows =
     groupby_keys id (concat (map (\<lambda>m. case sm_recipe m of None \<Rightarrow> [] | Some r \<Rightarrow> [(sm_store m, r)]) rows))"

definition available_ingredients :: "recipe_match list \<Rightarrow> int \<times> string \<Rightarrow> nat" where
  \<comment> \<open>the column \<open>ingredient\<close> of \<open>grouped\<close>\<close>
  "available_ingredients dfm k =
     nunique (map sm_ingredient
       (filter (\<lambda>m. sm_store m = fst k \<and> sm_recipe m = Some (snd k)) (df_available dfm)))"

definition df_complete :: "recipe_match list \<Rightarrow> (int \<times> string) list" where
  "df_complete dfm =
     filter (\<lambda>k. available_ingredients dfm k = ingredients_per_recipe dfm (snd k))
       (store_recipe_keys (df_available dfm))"

text \<open>
  \<^verbatim>\<open>
  df_products_subset = df_products[["store", "article", "product_concept", "priority_score",
                                    "waste_flag", "markdown_flag"]].dropna()
  df_enriched = df_complete.merge(df_matches, on=["store", "recipe"], how="left")
  df_enriched = df_enriched.merge(df_products_subset,
      left_on=["store", "ingredient_concept"], right_on=["store", "product_concept"], how="left")
  df_enriched["flagged"] = df_enriched[["waste_flag", "markdown_flag"]].sum(axis=1)
  df_enriched = df_enriched[df_enriched["flagged"] > 0]
  \<close>
  \<open>df_products\<close> is the table of Notebook 09; of the six columns only the concept can be
  NaN. An ingredient row without a product of its concept in its store keeps NaN in the
  product columns, and the row sum skips NaN.
\<close>

record enriched_row =
  e_store :: int
  e_recipe :: string
  e_ingredient :: string
  e_ingredient_concept :: "concept option"
  e_product :: "prioritized_product option"

definition df_products_subset :: "prioritized_product list \<Rightarrow> prioritized_product list" where
  "df_products_subset df_products = filter (\<lambda>p. product_concept p \<noteq> None) df_products"

definition enrich_match :: "prioritized_product list \<Rightarrow> int \<times> string \<Rightarrow> recipe_match \<Rightarrow> enriched_row list" where
  "enrich_match prods k m =
     (let ps = filter (\<lambda>p. store p = fst k \<and> product_concept p = sm_ingredient_concept m) prods;
          row = (\<lambda>p. \<lparr>e_store = fst k, e_recipe = snd k, e_ingredient = sm_ingredient m,
                       e_ingredient_concept = sm_ingredient_concept m, e_product = p\<rparr>)
      in if ps = [] then [row None] else map (\<lambda>p. row (Some p)) ps)"

definition enrich_pair :: "prioritized_product list \<Rightarrow> recipe_match list \<Rightarrow> int \<times> string \<Rightarrow> enriched_row list" where
  "enrich_pair prods dfm k =
     concat (map (enrich_match prods k)
       (filter (\<lambda>m. sm_store m = fst k \<and> sm_recipe m = Some (snd k)) dfm))"

definition flagged :: "enriched_row \<Rightarrow> int" where
  "flagged e = (case e_product e of None \<Rightarrow> 0 | Some p \<Rightarrow> waste_flag p + markdown_flag p)"

definition df_enriched :: "prioritized_product list \<Rightarrow> recipe_match list \<Rightarrow> enriched_row list" where
  "df_enriched df_products dfm =
     filter (\<lambda>e. 0 < flagged e)
       (concat (map (enrich_pair (df_products_subset df_products) dfm) (df_complete dfm)))"

text \<open>
  \<^verbatim>\<open>
  box_priority = (
      df_enriched.groupby(["store", "recipe"])
      .agg(avg_priority=("priority_score", "mean"))
      .reset_index()
  )
  box_priority = box_priority.sort_values(["store", "avg_priority"], ascending=[True, False])
  \<close>
\<close>

record box_row =
  b_store :: int
  b_recipe :: string
  avg_priority :: real

definition box_group :: "enriched_row list \<Rightarrow> int \<times> string \<Rightarrow> box_row" where
  "box_group enriched k =
     \<lparr>b_store = fst k, b_recipe = snd k,
      avg_priority = mean (map (\<lambda>p. real_of_int (priority_score p))
        (dropna (map e_product (filter (\<lambda>e. (e_store e, e_recipe e) = k) enriched))))\<rparr>"

definition box_priority :: "prioritized_product list \<Rightarrow> recipe_match list \<Rightarrow> box_row list" where
  "box_priority df_products dfm =
     (let enriched = df_enriched df_products dfm
      in sort_key (\<lambda>b. (b_store b, - avg_priority b))
           (map (box_group enriched) (groupby_keys (\<lambda>e. (e_store e, e_recipe e)) enriched)))"

definition store_mealbox_candidates ::
  "product list \<Rightarrow> waste_row list \<Rightarrow> markdown_row list \<Rightarrow> store_match list \<Rightarrow> recipe_row list \<Rightarrow> box_row list" where
  \<comment> \<open>Notebook 10 on the files it loads: the products of Notebook 09, the matches of Notebook 07\<close>
  "store_mealbox_candidates products df_waste df_markdown df_matches df_recipes =
     box_priority (products_with_priority products df_waste df_markdown)
       (merge_recipe df_matches df_recipes)"

section \<open>String cells\<close>

text \<open>
  A text column read from a file holds strings and NaN. \<open>astype(str)\<close> turns NaN into the
  string ``nan''; \<open>.str.strip()\<close> and \<open>.str.lower()\<close> leave NaN as it is. A character is a
  code point below 256, so the model covers text in Latin-1: Python's white space there is
  the code points 9 to 13, 28 to 32, 133 and 160, and its upper-case letters are 65 to 90
  and 192 to 222 without the multiplication sign 215, each 32 below its lower-case letter.
\<close>

definition is_space :: "char \<Rightarrow> bool" where
  "is_space c = ((of_char c :: nat) \<in> {9, 10, 11, 12, 13, 28, 29, 30, 31, 32, 133, 160})"

definition str_strip :: "string \<Rightarrow> string" where
  "str_strip s = rev (dropWhile is_space (rev (dropWhile is_space s)))"

definition lower_char :: "char \<Rightarrow> char" where
  "lower_char c =
     (let n = (of_char c :: nat)
      in if (65 \<le> n \<and> n \<le> 90) \<or> (192 \<le> n \<and> n \<le> 222 \<and> n \<noteq> 215) then char_of (n + 32) else c)"

definition str_lower :: "string \<Rightarrow> string" where
  "str_lower s = map lower_char s"

definition astype_str :: "string option \<Rightarrow> string" where
  "astype_str c = (case c of None \<Rightarrow> ''nan'' | Some s \<Rightarrow> s)"

definition normalize_str :: "string option \<Rightarrow> string" where
  \<comment> \<open>\<open>col.astype(str).str.strip().str.lower()\<close>\<close>
  "normalize_str c = str_lower (str_strip (astype_str c))"

definition normalize_opt :: "string option \<Rightarrow> string option" where
  \<comment> \<open>\<open>col.str.strip().str.lower()\<close>\<close>
  "normalize_opt c = map_option (\<lambda>s. str_lower (str_strip s)) c"

section \<open>Notebook 25: the random matching baseline\<close>

text \<open>
  \<open>DataFrame.sample(1, random_state=42)\<close> draws a row position from a generator that is
  created from the seed for this one call; without \<open>random_state\<close> it would draw from the
  global generator of the process and advance it. The generators are numpy's and are
  parameters of the model: \<open>seeded_choice seed n\<close> is the position that a generator
  fresh from \<open>seed\<close> draws among \<open>n\<close> rows, \<open>global_choice g n\<close> the position drawn in the
  global state \<open>g\<close> and the state after it. A position is below \<open>n\<close>; the model reduces
  the parameter modulo \<open>n\<close> to say so.
\<close>

record 'g numpy_random =
  seeded_choice :: "nat \<Rightarrow> nat \<Rightarrow> nat"
  global_choice :: "'g \<Rightarrow> nat \<Rightarrow> nat \<times> 'g"

definition sample_one :: "'g numpy_random \<Rightarrow> nat option \<Rightarrow> 'a list \<Rightarrow> 'g \<Rightarrow> 'a \<times> 'g" where
  \<comment> \<open>\<open>rows.sample(1, random_state=...).iloc[0]\<close> on a table that is not empty\<close>
  "sample_one np random_state rows g =
     (case random_state of
        Some seed \<Rightarrow> (rows ! (seeded_choice np seed (length rows) mod length rows), g)
      | None \<Rightarrow> (let (i, g') = global_choice np g (length rows) in (rows ! (i mod length rows), g')))"

text \<open>
  \<^verbatim>\<open>
  recipes["ingredient"] = recipes["ingredient"].str.strip().str.lower()
  products["product_concept"] = products["product_concept"].str.strip().str.lower()
  store_ingredients = store_recipes.merge(recipes[["row_id", "ingredient", "recipe"]], on="recipe", how="left")
  \<close>
  \<open>store_recipes\<close> is the boosted ranking written by Notebook 20.
\<close>

record store_ingredient =
  si_store :: int
  si_recipe :: string
  si_row_id :: "int option"
  si_ingredient :: "string option"

definition normalize_products :: "prioritized_product list \<Rightarrow> prioritized_product list" where
  "normalize_products products =
     map (\<lambda>p. p\<lparr>product_concept := normalize_opt (product_concept p)\<rparr>) products"

definition store_ingredients :: "agg_row list \<Rightarrow> recipe_row list \<Rightarrow> store_ingredient list" where
  "store_ingredients store_recipes recipes =
     concat (map (\<lambda>a.
       (let rs = filter (\<lambda>r. r_recipe r = a_recipe a) recipes
        in if rs = []
           then [\<lparr>si_store = a_store a, si_recipe = a_recipe a, si_row_id = None, si_ingredient = None\<rparr>]
           else map (\<lambda>r. \<lparr>si_store = a_store a, si_recipe = a_recipe a, si_row_id = Some (r_row_id r),
                           si_ingredient = Some (str_lower (str_strip (r_ingredient r)))\<rparr>) rs))
       store_recipes)"

text \<open>
  \<^verbatim>\<open>
  random_matches = []
  for _, row in store_ingredients.iterrows():
      store = row["store"]
      concept = row["ingredient"]
      available = products[products["store"] == store]
      if available.empty:
          continue
      sampled = available.sample(1, random_state=42).iloc[0]
      match = {
          "row_id": row["row_id"], "ingredient": row["ingredient"], "recipe": row["recipe"],
          "store": store, "product_article": sampled["article"],
          "product_name": sampled["product_name_clean"],
          "product_concept": sampled["product_concept"], "match_source": "random"
      }
      random_matches.append(match)
  \<close>
  The loop passes the global generator state along; \<open>product_name\<close> is the column
  \<open>product_name_clean\<close> of the product file. A match has eight columns; the record lists
  \<open>recipe\<close> last, after the seven columns that a match table without it has.
\<close>

record match_row =
  rm_row_id :: "int option"
  rm_ingredient :: "string option"
  rm_store :: int
  rm_product_article :: int
  rm_product_name :: string
  rm_product_concept :: "concept option"
  rm_match_source :: string

record random_match = match_row +
  rm_recipe :: "string option"

definition make_match :: "store_ingredient \<Rightarrow> prioritized_product \<Rightarrow> random_match" where
  "make_match row sampled =
     \<lparr>rm_row_id = si_row_id row, rm_ingredient = si_ingredient row,
      rm_store = si_store row, rm_product_article = article sampled,
      rm_product_name = product_name sampled, rm_product_concept = product_concept sampled,
      rm_match_source = ''random'', rm_recipe = Some (si_recipe row)\<rparr>"

fun random_matches ::
  "'g numpy_random \<Rightarrow> prioritized_product list \<Rightarrow> store_ingredient list \<Rightarrow> 'g \<Rightarrow> random_match list \<times> 'g" where
  "random_matches np products [] g = ([], g)"
| "random_matches np products (row # rows) g =
     (let available = filter (\<lambda>p. store p = si_store row) products
      in if available = [] then random_matches np products rows g
         else (let (sampled, g') = sample_one np (Some 42) available g;
                   (ms, g'') = random_matches np products rows g'
               in (make_match row sampled # ms, g'')))"

definition matching_matrix_random ::
  "'g numpy_random \<Rightarrow> recipe_row list \<Rightarrow> prioritized_product list \<Rightarrow> agg_row list \<Rightarrow> 'g \<Rightarrow> random_match list \<times> 'g" where
  \<comment> \<open>Notebook 25 on the three files it loads, started in the global generator state \<open>g\<close>\<close>
  "matching_matrix_random np recipes products store_recipes g =
     random_matches np (normalize_products products) (store_ingredients store_recipes recipes) g"

text \<open>
  \<^verbatim>\<open>
  df_random = pd.DataFrame(random_matches)
  df_random.to_csv(output_path, index=False)
  \<close>
  The file has the eight columns of the matches. A loop that appended nothing gives a frame,
  and a file, without any column.
\<close>

datatype match_file =
    No_columns
  | Seven_columns "match_row list"
  | Eight_columns "random_match list"

definition df_random_to_csv :: "random_match list \<Rightarrow> match_file" where
  "df_random_to_csv df_random = (if df_random = [] then No_columns else Eight_columns df_random)"

section \<open>Exceptions\<close>

text \<open>
  A raised exception is a value: a function that can raise returns \<open>py_error + 'a\<close>, with
  \<open>Inl\<close> the exception.
\<close>

datatype py_error = ValueError | TypeError | SyntaxError | NameError | AssertionError | EmptyDataError

section \<open>Notebook 26: waste impact of the random matching\<close>

text \<open>
  \<^verbatim>\<open>
  df_matches = pd.read_csv(match_file)
  \<close>
  The notebook reads the match file as it finds it: \<open>match_file\<close> says which columns the
  table has. \<open>read_csv\<close> raises \<open>EmptyDataError\<close> on a file without columns.
  \<^verbatim>\<open>
  df_matches["ingredient"] = df_matches["ingredient"].astype(str).str.strip().str.lower()
  df_recipes["ingredient"] = df_recipes["ingredient"].astype(str).str.strip().str.lower()
  df_matches = df_matches.merge(df_recipes[["row_id", "ingredient", "recipe"]],
                                on=["row_id", "ingredient"], how="left")
  assert "recipe" in df_matches.columns, "Merge failed: 'recipe' column missing"
  \<close>
  The two assignments normalize both tables in place. The left merge has one row for every
  pair of a match and a recipe row with its row id and ingredient, and one row with NaN for a
  match without such a recipe row.

  The column that the merge adds is named \<open>recipe\<close> only when the match table has no such
  column. On a table that has one, as the file of Notebook 25 does, pandas renames the two
  columns to \<open>recipe_x\<close> and \<open>recipe_y\<close>: the table has no column \<open>recipe\<close> and the
  \<open>assert\<close> raises.
\<close>

definition normalize_matches :: "('a match_row_scheme) list \<Rightarrow> ('a match_row_scheme) list" where
  "normalize_matches df_matches =
     map (\<lambda>m. m\<lparr>rm_ingredient := Some (normalize_str (rm_ingredient m))\<rparr>) df_matches"

definition normalize_recipes :: "recipe_row list \<Rightarrow> recipe_row list" where
  "normalize_recipes df_recipes =
     map (\<lambda>r. r\<lparr>r_ingredient := normalize_str (Some (r_ingredient r))\<rparr>) df_recipes"

definition left_merge_recipe ::
  "('a match_row_scheme) list \<Rightarrow> recipe_row list \<Rightarrow> ('a match_row_scheme \<times> string option) list" where
  \<comment> \<open>every row of the left table with the cell of the right table's column \<open>recipe\<close>\<close>
  "left_merge_recipe df_matches df_recipes =
     concat (map (\<lambda>m.
       (let rs = filter (\<lambda>r. Some (r_row_id r) = rm_row_id m \<and> Some (r_ingredient r) = rm_ingredient m)
                   df_recipes
        in if rs = [] then [(m, None)] else map (\<lambda>r. (m, Some (r_recipe r))) rs)) df_matches)"

definition restore_recipe :: "match_file \<Rightarrow> recipe_row list \<Rightarrow> py_error + random_match list" where
  \<comment> \<open>the first two cells, run once\<close>
  "restore_recipe file df_recipes =
     (case file of
        No_columns \<Rightarrow> Inl EmptyDataError
      | Seven_columns df_matches \<Rightarrow>
          Inr (map (\<lambda>(m, recipe). match_row.extend m \<lparr>rm_recipe = recipe\<rparr>)
                 (left_merge_recipe (normalize_matches df_matches) (normalize_recipes df_recipes)))
      | Eight_columns df_matches \<Rightarrow> Inl AssertionError)"

text \<open>
  In a notebook the assignment to \<open>df_matches\<close> stays when the \<open>assert\<close> after it raises.
  The run that the notebook records read a table of 8 columns and went on with one of 10:
  the cell was executed a second time, on the table with \<open>recipe_x\<close> and \<open>recipe_y\<close>, where
  the merge adds \<open>recipe\<close> and the \<open>assert\<close> passes. The second execution normalizes both
  tables again. The later cells read \<open>recipe\<close> and neither \<open>recipe_x\<close> nor \<open>recipe_y\<close>; the
  model keeps the merged column in the field \<open>rm_recipe\<close> and drops the other two.
\<close>

definition restore_recipe_rerun :: "random_match list \<Rightarrow> recipe_row list \<Rightarrow> random_match list" where
  \<comment> \<open>the second cell executed twice on a table of eight columns\<close>
  "restore_recipe_rerun df_matches df_recipes =
     (let recipes1 = normalize_recipes df_recipes;
          matches1 = map fst (left_merge_recipe (normalize_matches df_matches) recipes1);
          recipes2 = normalize_recipes recipes1
      in map (\<lambda>(m, recipe). m\<lparr>rm_recipe := recipe\<rparr>)
           (left_merge_recipe (normalize_matches matches1) recipes2))"

text \<open>
  \<^verbatim>\<open>
  df_matches["product_concept"] = df_matches["product_concept"].astype(str).str.strip().str.lower()
  df_waste["product_concept"] = df_waste["product_concept"].astype(str).str.strip().str.lower()
  deployable_pairs = df_ranked[["store", "recipe"]].drop_duplicates()
  df_deployed = df_matches.merge(deployable_pairs, on=["store", "recipe"], how="inner")
  \<close>
  After \<open>astype(str)\<close> no concept is NaN: a missing concept is the string ``nan''.
\<close>

record deployed_row =
  d_store :: int
  d_recipe :: string
  d_product_concept :: string

record waste_str_row =
  ws_store :: int
  ws_concept :: string
  ws_items_wasted :: int
  ws_value_wasted :: real

definition normalize_waste :: "waste_row list \<Rightarrow> waste_str_row list" where
  "normalize_waste df_waste =
     map (\<lambda>w. \<lparr>ws_store = w_store w, ws_concept = normalize_str (w_concept w),
               ws_items_wasted = items_wasted w, ws_value_wasted = value_wasted w\<rparr>) df_waste"

definition deployable_pairs :: "agg_row list \<Rightarrow> (int \<times> string) list" where
  "deployable_pairs df_ranked = unique (map (\<lambda>a. (a_store a, a_recipe a)) df_ranked)"

definition df_deployed :: "random_match list \<Rightarrow> agg_row list \<Rightarrow> deployed_row list" where
  "df_deployed df_matches df_ranked =
     concat (map (\<lambda>m. case rm_recipe m of
         None \<Rightarrow> []
       | Some r \<Rightarrow>
           (if (rm_store m, r) \<in> set (deployable_pairs df_ranked)
            then [\<lparr>d_store = rm_store m, d_recipe = r,
                   d_product_concept = normalize_str (rm_product_concept m)\<rparr>]
            else [])) df_matches)"

text \<open>
  \<^verbatim>\<open>
  df_simulated = df_waste.merge(df_deployed,
      left_on=["Store", "product_concept"], right_on=["store", "product_concept"], how="inner")
  df_simulated = df_simulated.rename(columns={"Items wasted": "items_wasted", "Value wasted": "value_wasted"})
  df_impact = df_simulated.groupby("store").agg({"items_wasted": "sum", "value_wasted": "sum"}).reset_index()
  \<close>
  An inner merge has one row for every pair of a waste row and a deployed row with equal keys.
\<close>

record simulated_row =
  s_store :: int
  s_product_concept :: string
  s_items_wasted :: int
  s_value_wasted :: real
  s_recipe :: string

record impact_row =
  i_store :: int
  i_items_wasted :: int
  i_value_wasted :: real

definition df_simulated :: "waste_str_row list \<Rightarrow> deployed_row list \<Rightarrow> simulated_row list" where
  "df_simulated df_waste deployed =
     concat (map (\<lambda>w.
       map (\<lambda>d. \<lparr>s_store = d_store d, s_product_concept = ws_concept w,
                 s_items_wasted = ws_items_wasted w, s_value_wasted = ws_value_wasted w,
                 s_recipe = d_recipe d\<rparr>)
         (filter (\<lambda>d. d_store d = ws_store w \<and> d_product_concept d = ws_concept w) deployed))
       df_waste)"

definition df_impact :: "simulated_row list \<Rightarrow> impact_row list" where
  "df_impact simulated =
     map (\<lambda>s. \<lparr>i_store = s,
               i_items_wasted = sum_list (map s_items_wasted (filter (\<lambda>r. s_store r = s) simulated)),
               i_value_wasted = sum_list (map s_value_wasted (filter (\<lambda>r. s_store r = s) simulated))\<rparr>)
       (groupby_keys s_store simulated)"

text \<open>
  The cell between the merge and the sum raises \<open>ValueError\<close> when \<open>df_simulated\<close> has fewer
  than two columns named ``store'' in any case; the merge on \<open>Store\<close> and \<open>store\<close> gives it
  both, so that branch is not taken. The cell keeps the second of them, the store of the
  deployed row.
\<close>

definition simulate_impact :: "random_match list \<Rightarrow> agg_row list \<Rightarrow> waste_row list \<Rightarrow> impact_row list" where
  \<comment> \<open>the cells after the merge of the recipes\<close>
  "simulate_impact df_matches df_ranked df_waste =
     df_impact (df_simulated (normalize_waste df_waste) (df_deployed df_matches df_ranked))"

definition waste_impact_random ::
  "match_file \<Rightarrow> agg_row list \<Rightarrow> recipe_row list \<Rightarrow> waste_row list \<Rightarrow> py_error + impact_row list" where
  \<comment> \<open>Notebook 26 run from top to bottom on the four files it loads\<close>
  "waste_impact_random file df_ranked df_recipes df_waste =
     (case restore_recipe file df_recipes of
        Inl e \<Rightarrow> Inl e
      | Inr df_matches \<Rightarrow> Inr (simulate_impact df_matches df_ranked df_waste))"

definition waste_impact_random_rerun ::
  "random_match list \<Rightarrow> agg_row list \<Rightarrow> recipe_row list \<Rightarrow> waste_row list \<Rightarrow> impact_row list" where
  \<comment> \<open>Notebook 26 on a match table of eight columns, as recorded: the second cell executed twice\<close>
  "waste_impact_random_rerun df_matches df_ranked df_recipes df_waste =
     simulate_impact (restore_recipe_rerun df_matches df_recipes) df_ranked df_waste"

definition random_baseline ::
  "'g numpy_random \<Rightarrow> recipe_row list \<Rightarrow> prioritized_product list \<Rightarrow> agg_row list \<Rightarrow> waste_row list \<Rightarrow> 'g
     \<Rightarrow> py_error + impact_row list" where
  \<comment> \<open>one run: Notebook 25, then Notebook 26 from top to bottom on the file it wrote\<close>
  "random_baseline np recipes products store_recipes df_waste g =
     waste_impact_random (df_random_to_csv (fst (matching_matrix_random np recipes products store_recipes g)))
       store_recipes recipes df_waste"

definition store_waste_totals :: "waste_row list \<Rightarrow> int \<Rightarrow> int \<times> real" where
  \<comment> \<open>what the snapshot records for a store: the sums over all of its waste rows\<close>
  "store_waste_totals df_waste s =
     (sum_list (map items_wasted (filter (\<lambda>w. w_store w = s) df_waste)),
      sum_list (map value_wasted (filter (\<lambda>w. w_store w = s) df_waste)))"

section \<open>Notebook 14: simulated savings of the deployed meal boxes\<close>

text \<open>
  \<^verbatim>\<open>
  df_ranked_exploded = df_ranked.explode("ingredients").dropna()
  df_ranked_exploded["ingredient_concept"] = df_ranked_exploded["ingredients"].str.strip().str.lower()
  concepts_per_store = (
      df_ranked_exploded.groupby("store")["ingredient_concept"].apply(set).reset_index()
  )
  concepts_per_store.columns = ["store", "deployed_concepts"]
  \<close>
  The column \<open>ingredients\<close> of the plan read from its file is a text cell, which \<open>explode\<close>
  leaves as it is. A store without a row in the plan has no set of deployed concepts.
\<close>

record plan_row =
  mb_store :: int
  mb_recipe :: string
  mb_ingredients :: "string option"

definition deployed_concepts :: "plan_row list \<Rightarrow> int \<Rightarrow> string list option" where
  "deployed_concepts df_ranked s =
     (let cs = map (\<lambda>i. str_lower (str_strip i))
                 (dropna (map mb_ingredients (filter (\<lambda>r. mb_store r = s) df_ranked)))
      in if cs = [] then None else Some cs)"

text \<open>
  \<^verbatim>\<open>
  df_waste["product_concept"] = df_waste["product_concept"].astype(str).str.strip().str.lower()
  df_waste_valid = df_waste[["Store", "product_concept", "Items wasted", "Value wasted"]].dropna()
  df_sim = df_waste_valid.merge(concepts_per_store, on="store", how="left")
  df_sim["covered"] = df_sim.apply(
      lambda row: row["product_concept"] in row["deployed_concepts"]
                  if isinstance(row["deployed_concepts"], set) else False, axis=1)
  df_covered = df_sim[df_sim["covered"]]
  df_savings = (
      df_covered.groupby(["store", "product_concept"])
      .agg(items_saved=("Items wasted", "sum"), value_saved=("Value wasted", "sum"))
      .reset_index()
  )
  df_totals = (
      df_savings.groupby("store")
      .agg(total_items_saved=("items_saved", "sum"), total_value_saved=("value_saved", "sum"))
      .reset_index()
  )
  \<close>
  The rows modelled have their store and both quantities, so \<open>dropna\<close> drops none.
\<close>

definition covered :: "plan_row list \<Rightarrow> waste_str_row \<Rightarrow> bool" where
  "covered df_ranked w =
     (case deployed_concepts df_ranked (ws_store w) of
        None \<Rightarrow> False
      | Some cs \<Rightarrow> ws_concept w \<in> set cs)"

definition df_covered :: "plan_row list \<Rightarrow> waste_row list \<Rightarrow> waste_str_row list" where
  "df_covered df_ranked df_waste = filter (covered df_ranked) (normalize_waste df_waste)"

record savings_row =
  sv_store :: int
  sv_concept :: string
  items_saved :: int
  value_saved :: real

record totals_row =
  t_store :: int
  total_items_saved :: int
  total_value_saved :: real

definition savings_group :: "waste_str_row list \<Rightarrow> int \<times> string \<Rightarrow> savings_row" where
  "savings_group rows k =
     \<lparr>sv_store = fst k, sv_concept = snd k,
      items_saved = sum_list (map ws_items_wasted (filter (\<lambda>w. (ws_store w, ws_concept w) = k) rows)),
      value_saved = sum_list (map ws_value_wasted (filter (\<lambda>w. (ws_store w, ws_concept w) = k) rows))\<rparr>"

definition df_savings :: "plan_row list \<Rightarrow> waste_row list \<Rightarrow> savings_row list" where
  "df_savings df_ranked df_waste =
     map (savings_group (df_covered df_ranked df_waste))
       (groupby_keys (\<lambda>w. (ws_store w, ws_concept w)) (df_covered df_ranked df_waste))"

definition df_totals :: "plan_row list \<Rightarrow> waste_row list \<Rightarrow> totals_row list" where
  "df_totals df_ranked df_waste =
     (let savings = df_savings df_ranked df_waste
      in map (\<lambda>s. \<lparr>t_store = s,
                     total_items_saved = sum_list (map items_saved (filter (\<lambda>v. sv_store v = s) savings)),
                     total_value_saved = sum_list (map value_saved (filter (\<lambda>v. sv_store v = s) savings))\<rparr>)
           (groupby_keys sv_store savings))"

section \<open>Catching exceptions\<close>

text \<open>
  A bare \<open>except:\<close> catches every exception and returns the value of its handler.
\<close>

definition try_except :: "py_error + 'a \<Rightarrow> 'a \<Rightarrow> py_error + 'a" where
  "try_except body handler = (case body of Inl e \<Rightarrow> Inr handler | Inr v \<Rightarrow> Inr v)"

fun apply_rows :: "('a \<Rightarrow> py_error + 'b) \<Rightarrow> 'a list \<Rightarrow> py_error + 'b list" where
  \<comment> \<open>\<open>df.apply(f, axis=1)\<close>: the rows in order; an exception in a row ends the batch\<close>
  "apply_rows f [] = Inr []"
| "apply_rows f (r # rs) =
     (case f r of
        Inl e \<Rightarrow> Inl e
      | Inr v \<Rightarrow> (case apply_rows f rs of Inl e \<Rightarrow> Inl e | Inr vs \<Rightarrow> Inr (v # vs)))"

section \<open>Notebook 05: parsing serialized embeddings\<close>

text \<open>
  \<^verbatim>\<open>
  def fix_embedding_string(s):
      if isinstance(s, str):
          s = re.sub(r'\s+', ',', s.strip())  # replace all whitespace with commas
          try:
              return list(map(float, s.strip("[]").split(",")))
          except:
              return np.zeros(384)  # fallback zero vector if parsing fails
      return s
  \<close>
  A cell is a string or NaN (\<open>None\<close>), which is returned as it is. Python's \<open>float\<close> is a
  parameter: \<open>None\<close> where it raises.
\<close>

function sub_spaces :: "string \<Rightarrow> string" where
  \<comment> \<open>\<open>re.sub(r'\s+', ',', s)\<close>: every maximal run of white space becomes one comma\<close>
  "sub_spaces [] = []"
| "sub_spaces (c # cs) =
     (if is_space c then CHR '','' # sub_spaces (dropWhile is_space cs) else c # sub_spaces cs)"
  by pat_completeness auto
termination
  by (relation "measure length") (auto simp: less_Suc_eq_le length_dropWhile_le)

definition strip_chars :: "string \<Rightarrow> string \<Rightarrow> string" where
  \<comment> \<open>\<open>s.strip(chars)\<close>\<close>
  "strip_chars chars s =
     rev (dropWhile (\<lambda>c. c \<in> set chars) (rev (dropWhile (\<lambda>c. c \<in> set chars) s)))"

fun split_on :: "char \<Rightarrow> string \<Rightarrow> string list" where
  \<comment> \<open>\<open>s.split(sep)\<close> for a separator of one character\<close>
  "split_on sep [] = [[]]"
| "split_on sep (c # cs) =
     (if c = sep then [] # split_on sep cs
      else (case split_on sep cs of [] \<Rightarrow> [[c]] | t # ts \<Rightarrow> (c # t) # ts))"

fun map_float :: "(string \<Rightarrow> real option) \<Rightarrow> string list \<Rightarrow> py_error + real list" where
  \<comment> \<open>\<open>list(map(float, tokens))\<close>\<close>
  "map_float py_float [] = Inr []"
| "map_float py_float (t # ts) =
     (case py_float t of
        None \<Rightarrow> Inl ValueError
      | Some x \<Rightarrow> (case map_float py_float ts of Inl e \<Rightarrow> Inl e | Inr xs \<Rightarrow> Inr (x # xs)))"

definition embedding_tokens :: "string \<Rightarrow> string list" where
  "embedding_tokens s = split_on CHR '','' (strip_chars ''[]'' (sub_spaces (str_strip s)))"

definition parse_embedding :: "(string \<Rightarrow> real option) \<Rightarrow> string \<Rightarrow> py_error + real list" where
  \<comment> \<open>the body of the \<open>try\<close>\<close>
  "parse_embedding py_float s = map_float py_float (embedding_tokens s)"

definition fix_embedding_string ::
  "(string \<Rightarrow> real option) \<Rightarrow> string option \<Rightarrow> py_error + real list option" where
  "fix_embedding_string py_float cell =
     (case cell of
        None \<Rightarrow> Inr None
      | Some s \<Rightarrow>
          (case try_except (parse_embedding py_float s) (replicate 384 0) of
             Inl e \<Rightarrow> Inl e
           | Inr v \<Rightarrow> Inr (Some v)))"

section \<open>Notebook 20: the semantic score of a match\<close>

text \<open>
  \<^verbatim>\<open>
  def compute_semantic_similarity(row):
      try:
          emb_ingredient = np.array(eval(row["ingredient_embedding"]))
          emb_product = np.array(eval(row["product_embedding"]))
          sim = cosine_similarity([emb_ingredient], [emb_product])[0][0]
          return sim
      except:
          return np.nan
  df_full["semantic_score"] = df_full.apply(compute_semantic_similarity, axis=1)
  df_full["semantic_score"] = df_full["semantic_score"].fillna(0)
  \<close>
  Python's \<open>eval\<close> on a cell and scikit-learn's \<open>cosine_similarity\<close> on two vectors are
  parameters; each returns its value or the exception it raises. \<open>None\<close> is NaN.
\<close>

record embedded_row =
  er_store :: int
  er_recipe :: string
  er_ingredient :: string
  er_product_article :: string
  er_fuzzy_score :: real
  ingredient_embedding :: "string option"
  product_embedding :: "string option"
  er_waste_flag :: int
  er_markdown_flag :: int

definition similarity_body ::
  "(string option \<Rightarrow> py_error + real list) \<Rightarrow> (real list \<Rightarrow> real list \<Rightarrow> py_error + real)
     \<Rightarrow> embedded_row \<Rightarrow> py_error + real option" where
  \<comment> \<open>the body of the \<open>try\<close>\<close>
  "similarity_body py_eval cosine_similarity row =
     (case py_eval (ingredient_embedding row) of
        Inl e \<Rightarrow> Inl e
      | Inr emb_ingredient \<Rightarrow>
          (case py_eval (product_embedding row) of
             Inl e \<Rightarrow> Inl e
           | Inr emb_product \<Rightarrow>
               (case cosine_similarity emb_ingredient emb_product of
                  Inl e \<Rightarrow> Inl e
                | Inr sim \<Rightarrow> Inr (Some sim))))"

definition compute_semantic_similarity ::
  "(string option \<Rightarrow> py_error + real list) \<Rightarrow> (real list \<Rightarrow> real list \<Rightarrow> py_error + real)
     \<Rightarrow> embedded_row \<Rightarrow> py_error + real option" where
  "compute_semantic_similarity py_eval cosine_similarity row =
     try_except (similarity_body py_eval cosine_similarity row) None"

definition fillna0 :: "real option \<Rightarrow> real" where
  \<comment> \<open>\<open>.fillna(0)\<close> for one cell\<close>
  "fillna0 v = (case v of None \<Rightarrow> 0 | Some x \<Rightarrow> x)"

definition scored_row :: "embedded_row \<Rightarrow> real option \<Rightarrow> full_row" where
  "scored_row row sim =
     \<lparr>m_store = er_store row, m_recipe = er_recipe row, m_ingredient = er_ingredient row,
      m_product_article = er_product_article row, fuzzy_score = er_fuzzy_score row,
      semantic_score = fillna0 sim, m_waste_flag = er_waste_flag row,
      m_markdown_flag = er_markdown_flag row\<rparr>"

definition add_semantic_score ::
  "(string option \<Rightarrow> py_error + real list) \<Rightarrow> (real list \<Rightarrow> real list \<Rightarrow> py_error + real)
     \<Rightarrow> embedded_row list \<Rightarrow> py_error + full_row list" where
  \<comment> \<open>the two assignments to \<open>semantic_score\<close>, over the batch\<close>
  "add_semantic_score py_eval cosine_similarity rows =
     apply_rows (\<lambda>row.
       (case compute_semantic_similarity py_eval cosine_similarity row of
          Inl e \<Rightarrow> Inl e
        | Inr sim \<Rightarrow> Inr (scored_row row sim))) rows"

section \<open>Notebook 22: the fuzzy matching matrix\<close>

text \<open>
  \<^verbatim>\<open>
  df_store_products = df_products[["store", product_id_col, "product_name", "product_concept"]].drop_duplicates()
  df_store_products = df_store_products[df_store_products["product_concept"].notna()]
  df_recipes = df_recipes.dropna(subset=["ingredient_concept"])
  df_recipes["ingredient_concept"] = df_recipes["ingredient_concept"].str.strip().str.lower()

  def fuzzy_similarity(a, b):
      return SequenceMatcher(None, a, b).ratio()

  matches = []
  for _, recipe_row in df_recipes.iterrows():
      ingredient = recipe_row["ingredient_concept"]
      recipe = recipe_row["recipe"]
      row_id = recipe_row["row_id"]
      for _, product_row in df_store_products.iterrows():
          product = product_row["product_concept"]
          score = fuzzy_similarity(ingredient, product)
          if score > 0.5:  # adjustable threshold
              matches.append({
                  "row_id": row_id, "recipe": recipe, "ingredient": ingredient,
                  "store": product_row["store"], "product_article": product_row["product_article"],
                  "product_name": product_row["product_name"], "product_concept": product,
                  "fuzzy_score": round(score * 100, 2)
              })
  \<close>
  \<open>ratio a b\<close> stands for difflib's \<open>SequenceMatcher(None, a, b).ratio()\<close>, a parameter.
  Only the ingredient concept is stripped and lower-cased; the product concept is compared
  as it is in the file.
\<close>

record fuzzy_match =
  fm_row_id :: int
  fm_recipe :: string
  fm_ingredient :: string
  fm_store :: int
  fm_product_article :: int
  fm_product_name :: string
  fm_product_concept :: string
  fm_fuzzy_score :: real

definition df_store_products :: "product list \<Rightarrow> product list" where
  "df_store_products df_products = filter (\<lambda>p. product_concept p \<noteq> None) (unique df_products)"

definition product_matches ::
  "(string \<Rightarrow> string \<Rightarrow> real) \<Rightarrow> recipe_row \<Rightarrow> string \<Rightarrow> product \<Rightarrow> fuzzy_match list" where
  \<comment> \<open>the body of the inner loop, for the ingredient concept after normalization\<close>
  "product_matches ratio recipe_row ingredient product_row =
     (case product_concept product_row of
        None \<Rightarrow> []
      | Some product \<Rightarrow>
          (let score = ratio ingredient product
           in if 1 / 2 < score
              then [\<lparr>fm_row_id = r_row_id recipe_row, fm_recipe = r_recipe recipe_row,
                     fm_ingredient = ingredient, fm_store = store product_row,
                     fm_product_article = article product_row,
                     fm_product_name = product_name product_row, fm_product_concept = product,
                     fm_fuzzy_score = round2 (score * 100)\<rparr>]
              else []))"

definition recipe_matches ::
  "(string \<Rightarrow> string \<Rightarrow> real) \<Rightarrow> product list \<Rightarrow> recipe_row \<Rightarrow> fuzzy_match list" where
  \<comment> \<open>the body of the outer loop; a recipe row without concept has been dropped\<close>
  "recipe_matches ratio store_products recipe_row =
     (case r_ingredient_concept recipe_row of
        None \<Rightarrow> []
      | Some c \<Rightarrow> concat (map (product_matches ratio recipe_row (str_lower (str_strip c))) store_products))"

definition matching_matrix_fuzzy ::
  "(string \<Rightarrow> string \<Rightarrow> real) \<Rightarrow> recipe_row list \<Rightarrow> product list \<Rightarrow> fuzzy_match list" where
  "matching_matrix_fuzzy ratio df_recipes df_products =
     concat (map (recipe_matches ratio (df_store_products df_products)) df_recipes)"

section \<open>Notebook 19: scoring and filtering the candidates\<close>

text \<open>
  \<^verbatim>\<open>
  def compute_fuzzy_score(row):
      name_ingredient = row["ingredient"]
      name_product = row["product_name"]
      if pd.isna(name_ingredient) or pd.isna(name_product):
          return 0
      return fuzz.token_set_ratio(str(name_ingredient), str(name_product))
  df_matches["fuzzy_score"] = df_matches.apply(compute_fuzzy_score, axis=1)
  \<close>
  fuzzywuzzy's \<open>token_set_ratio\<close>, an integer from 0 to 100, is a parameter. The score reads
  the two names and no concept.
\<close>

record candidate =
  c_row_id :: int
  c_store :: int
  c_ingredient :: "string option"
  c_product_article :: int
  c_product_name :: "string option"
  c_product_concept :: "concept option"

record scored_candidate = candidate +
  c_fuzzy_score :: nat

definition compute_fuzzy_score :: "(string \<Rightarrow> string \<Rightarrow> nat) \<Rightarrow> candidate \<Rightarrow> nat" where
  "compute_fuzzy_score token_set_ratio row =
     (case (c_ingredient row, c_product_name row) of
        (Some name_ingredient, Some name_product) \<Rightarrow> token_set_ratio name_ingredient name_product
      | _ \<Rightarrow> 0)"

definition score_candidates :: "(string \<Rightarrow> string \<Rightarrow> nat) \<Rightarrow> candidate list \<Rightarrow> scored_candidate list" where
  "score_candidates token_set_ratio df_matches =
     map (\<lambda>row. candidate.extend row \<lparr>c_fuzzy_score = compute_fuzzy_score token_set_ratio row\<rparr>) df_matches"

text \<open>
  \<^verbatim>\<open>
  threshold = 60
  df_filtered = df_matches[df_matches["fuzzy_score"] >= threshold].copy()
  df_top = (
      df_filtered
      .sort_values("fuzzy_score", ascending=False)
      .drop_duplicates(subset=["row_id", "store"])
      .reset_index(drop=True)
  )
  \<close>
  \<open>drop_duplicates\<close> keeps the first row of every key. The sort on one column is numpy's
  quicksort, which leaves the order of rows with equal score to the algorithm: the sort is
  the parameter \<open>sort_values\<close>, and \<open>descending\<close> says what pandas promises of it on a
  table, the same rows with the scores descending.
\<close>

definition threshold :: nat where
  "threshold = 60"

fun drop_duplicates :: "('a \<Rightarrow> 'k) \<Rightarrow> 'k list \<Rightarrow> 'a list \<Rightarrow> 'a list" where
  \<comment> \<open>\<open>drop_duplicates(subset=key)\<close>, given the keys seen so far\<close>
  "drop_duplicates key seen [] = []"
| "drop_duplicates key seen (x # xs) =
     (if key x \<in> set seen then drop_duplicates key seen xs
      else x # drop_duplicates key (key x # seen) xs)"

definition df_filtered :: "scored_candidate list \<Rightarrow> scored_candidate list" where
  "df_filtered scored = filter (\<lambda>m. threshold \<le> c_fuzzy_score m) scored"

definition descending :: "(scored_candidate list \<Rightarrow> scored_candidate list) \<Rightarrow> scored_candidate list \<Rightarrow> bool" where
  "descending sort_values rows \<longleftrightarrow>
     set (sort_values rows) = set rows
     \<and> length (sort_values rows) = length rows
     \<and> sorted_wrt (\<lambda>a b. c_fuzzy_score b \<le> c_fuzzy_score a) (sort_values rows)"

definition df_top ::
  "(scored_candidate list \<Rightarrow> scored_candidate list) \<Rightarrow> (string \<Rightarrow> string \<Rightarrow> nat) \<Rightarrow> candidate list
     \<Rightarrow> scored_candidate list" where
  "df_top sort_values token_set_ratio df_matches =
     drop_duplicates (\<lambda>m. (c_row_id m, c_store m)) []
       (sort_values (df_filtered (score_candidates token_set_ratio df_matches)))"

definition random_pick :: "'g numpy_random \<Rightarrow> prioritized_product list \<Rightarrow> int \<Rightarrow> prioritized_product" where
  \<comment> \<open>the row that a draw seeded with 42 takes from the catalog of a store\<close>
  "random_pick np products s =
     (let available = filter (\<lambda>p. store p = s) products
      in available ! (seeded_choice np 42 (length available) mod length available))"

section \<open>Example tables for the closed instances\<close>

definition ex_products :: "product list" where
  "ex_products =
     [\<lparr>store = 1024, article = 11, product_name = ''volle yoghurt'', product_concept = Some ''yogurt''\<rparr>,
      \<lparr>store = 1024, article = 12, product_name = ''bloemenhoning'', product_concept = Some ''honey''\<rparr>,
      \<lparr>store = 1058, article = 13, product_name = ''afwasmiddel'', product_concept = None\<rparr>]"

definition ex_waste :: "waste_row list" where
  "ex_waste =
     [\<lparr>w_store = 3298, w_concept = Some ''yogurt'', items_wasted = 6, value_wasted = 594 / 100\<rparr>,
      \<lparr>w_store = 3298, w_concept = None, items_wasted = 2, value_wasted = 23 / 10\<rparr>]"

definition ex_markdown :: "markdown_row list" where
  "ex_markdown = [\<lparr>md_store = 1160, md_concept = Some ''tuna''\<rparr>]"

definition ex_recipes :: "recipe_row list" where
  "ex_recipes =
     [\<lparr>r_row_id = 0, r_recipe = ''Greek Yogurt & Honey'', r_ingredient = ''yogurt'',
       r_ingredient_concept = Some ''yogurt''\<rparr>,
      \<lparr>r_row_id = 1, r_recipe = ''Greek Yogurt & Honey'', r_ingredient = ''honey'',
       r_ingredient_concept = Some ''honey''\<rparr>]"

definition ex_store_matches :: "store_match list" where
  "ex_store_matches =
     [\<lparr>sm_store = 1024, sm_ingredient = ''yogurt'', sm_ingredient_concept = Some ''yogurt'',
       match_available = True\<rparr>,
      \<lparr>sm_store = 1058, sm_ingredient = ''yogurt'', sm_ingredient_concept = Some ''yogurt'',
       match_available = False\<rparr>,
      \<lparr>sm_store = 1024, sm_ingredient = ''honey'', sm_ingredient_concept = Some ''honey'',
       match_available = True\<rparr>,
      \<lparr>sm_store = 1058, sm_ingredient = ''honey'', sm_ingredient_concept = Some ''honey'',
       match_available = False\<rparr>]"

text \<open>
  A one-ingredient recipe whose only match in store 1024 is a product with neither flag
  (the first scenario of the specification), as a table of scored matches.
\<close>

definition ex_yogurt_recipe :: "recipe_row list" where
  "ex_yogurt_recipe =
     [\<lparr>r_row_id = 0, r_recipe = ''Greek Yogurt & Honey'', r_ingredient = ''yogurt'',
       r_ingredient_concept = Some ''yogurt''\<rparr>]"

definition ex_full :: "full_row list" where
  "ex_full =
     [\<lparr>m_store = 1024, m_recipe = ''Greek Yogurt & Honey'', m_ingredient = ''yogurt'',
       m_product_article = ''11'', fuzzy_score = 100, semantic_score = 1,
       m_waste_flag = 0, m_markdown_flag = 0\<rparr>]"

text \<open>
  The boosted ranking of the two-ingredient recipe in store 1024, a generator whose seeded
  draw is position 1, the waste rows of store 1024, and a catalog in which store 1024 has two yogurts.
\<close>

definition ex_np :: "nat numpy_random" where
  "ex_np = \<lparr>seeded_choice = (\<lambda>seed n. 1), global_choice = (\<lambda>g n. (g, Suc g))\<rparr>"

definition ex_store_recipes :: "agg_row list" where
  "ex_store_recipes =
     [\<lparr>a_store = 1024, a_recipe = ''Greek Yogurt & Honey'', matched_ingredients = 2,
       avg_score = 50, n_ingredients = Some 2, coverage = Some 1\<rparr>]"

definition ex_waste_1024 :: "waste_row list" where
  "ex_waste_1024 =
     [\<lparr>w_store = 1024, w_concept = Some ''yogurt'', items_wasted = 6, value_wasted = 594 / 100\<rparr>,
      \<lparr>w_store = 1024, w_concept = None, items_wasted = 2, value_wasted = 23 / 10\<rparr>]"

definition ex_yogurts :: "product list" where
  "ex_yogurts =
     [\<lparr>store = 1024, article = 11, product_name = ''volle yoghurt'', product_concept = Some ''yogurt''\<rparr>,
      \<lparr>store = 1024, article = 14, product_name = ''roeryoghurt'', product_concept = Some ''yogurt''\<rparr>,
      \<lparr>store = 1058, article = 12, product_name = ''bloemenhoning'', product_concept = Some ''honey''\<rparr>]"

text \<open>
  A match table of seven columns: the two ingredients of the recipe in store 1024, both
  matched with the first yogurt.
\<close>

definition ex_match_rows :: "match_row list" where
  "ex_match_rows =
     [\<lparr>rm_row_id = Some 0, rm_ingredient = Some ''yogurt'', rm_store = 1024, rm_product_article = 11,
       rm_product_name = ''volle yoghurt'', rm_product_concept = Some ''yogurt'',
       rm_match_source = ''random''\<rparr>,
      \<lparr>rm_row_id = Some 1, rm_ingredient = Some ''honey'', rm_store = 1024, rm_product_article = 11,
       rm_product_name = ''volle yoghurt'', rm_product_concept = Some ''yogurt'',
       rm_match_source = ''random''\<rparr>]"

text \<open>
  Stand-ins for Python's \<open>float\<close> and \<open>eval\<close> and for \<open>cosine_similarity\<close> on the cells
  of the example, and a match row whose product embedding is not a Python expression.
\<close>

definition ex_float :: "string \<Rightarrow> real option" where
  "ex_float t = (if t = ''0.5'' then Some (1 / 2) else if t = ''1'' then Some 1 else None)"

definition ex_eval :: "string option \<Rightarrow> py_error + real list" where
  "ex_eval cell =
     (case cell of
        None \<Rightarrow> Inl TypeError
      | Some s \<Rightarrow> if s = ''[1, 0.5]'' then Inr [1, 1 / 2] else Inl SyntaxError)"

definition ex_cosine :: "real list \<Rightarrow> real list \<Rightarrow> py_error + real" where
  "ex_cosine a b = (if a = b then Inr 1 else Inl ValueError)"

definition ex_embedded :: "embedded_row list" where
  "ex_embedded =
     [\<lparr>er_store = 1024, er_recipe = ''Greek Yogurt & Honey'', er_ingredient = ''yogurt'',
       er_product_article = ''11'', er_fuzzy_score = 71,
       ingredient_embedding = Some ''[1, 0.5]'', product_embedding = Some ''[1 0.5]'',
       er_waste_flag = 1, er_markdown_flag = 0\<rparr>]"

text \<open>
  Stand-ins for difflib's \<open>ratio\<close> on identical strings and for \<open>token_set_ratio\<close> on the
  two product names of the example (71 is the score the notebook prints for ``yogurt'' and
  ``roeryoghurt''), and two candidates of one ingredient in store 1058, both with the
  concept of the ingredient.
\<close>

definition ex_ratio :: "string \<Rightarrow> string \<Rightarrow> real" where
  "ex_ratio a b = (if a = b then 1 else 0)"

definition ex_token_set_ratio :: "string \<Rightarrow> string \<Rightarrow> nat" where
  "ex_token_set_ratio a b =
     (if (a, b) = (''yogurt'', ''roeryoghurt'') then 71
      else if (a, b) = (''yogurt'', ''kwark aardbei'') then 11 else 0)"

definition ex_sort_values :: "scored_candidate list \<Rightarrow> scored_candidate list" where
  \<comment> \<open>a sort that keeps rows of equal score in their order\<close>
  "ex_sort_values rows = sort_key (\<lambda>m. - int (c_fuzzy_score m)) rows"

definition ex_candidates :: "candidate list" where
  "ex_candidates =
     [\<lparr>c_row_id = 0, c_store = 1058, c_ingredient = Some ''yogurt'', c_product_article = 21,
       c_product_name = Some ''kwark aardbei'', c_product_concept = Some ''yogurt''\<rparr>,
      \<lparr>c_row_id = 0, c_store = 1058, c_ingredient = Some ''yogurt'', c_product_article = 22,
       c_product_name = Some ''roeryoghurt'', c_product_concept = Some ''yogurt''\<rparr>]"

section \<open>Properties\<close>

subsection \<open>Helper facts on the pandas functions\<close>

lemma set_dropna: "set (dropna xs) = {v. Some v \<in> set xs}"
  by (induction xs) (auto simp: dropna_def List.map_filter_def)

lemma set_unique: "set (unique xs) = set xs"
  by (simp add: unique_def)

lemma isin_iff: "isin c vals \<longleftrightarrow> (\<exists>v \<in> set vals. c = Some v)"
  by (cases c) (auto simp: isin_def)

lemma set_waste_concepts: "set (waste_concepts df) = {v. \<exists>w \<in> set df. w_concept w = Some v}"
  by (auto simp: waste_concepts_def set_unique set_dropna image_iff) metis

lemma set_markdown_concepts: "set (markdown_concepts df) = {v. \<exists>w \<in> set df. md_concept w = Some v}"
  by (auto simp: markdown_concepts_def set_unique set_dropna image_iff) metis

subsection \<open>C6: the variant resolver on ``strawberries''\<close>

text \<open>
  C6 (evaluation of the code at the input of the claim). The variant table of Notebook 17 maps
  the surface form ``strawberries'' to the concept ``strawberry''. The resolver does not look
  a term up in that table but in its inversion \<open>variant_to_concept\<close>, whose keys are the
  canonical concepts. So ``strawberries'' is no key and comes back unchanged, where the claim
  expects ``strawberry''; and the canonical ``strawberry'' is rewritten to its variant.
\<close>

theorem resolve_variant_strawberries:
  "map_of variant_map ''strawberries'' = Some ''strawberry''
   \<and> resolve_variant (variant_to_concept variant_map) (Some ''strawberries'') = Some ''strawberries''
   \<and> resolve_variant (variant_to_concept variant_map) (Some ''strawberries'') \<noteq> Some ''strawberry''
   \<and> resolve_variant (variant_to_concept variant_map) (Some ''strawberry'') = Some ''strawberries''"
  by (simp add: variant_map_def manual_variants_def variant_to_concept_def resolve_variant_def)

subsection \<open>C4: the priority scorer\<close>

lemma priority_scorer_fields:
  "product_concept (priority_scorer wcs mcs p) = product_concept p"
  "store (priority_scorer wcs mcs p) = store p"
  "waste_flag (priority_scorer wcs mcs p) = astype_int (isin (product_concept p) wcs)"
  "markdown_flag (priority_scorer wcs mcs p) = astype_int (isin (product_concept p) mcs)"
  "priority_score (priority_scorer wcs mcs p) =
     astype_int (isin (product_concept p) wcs) + astype_int (isin (product_concept p) mcs)"
  by (simp_all add: priority_scorer_def Let_def product.extend_def)

text \<open>
  C4. The product table written by Notebook 09 has one row per product, in order, with the
  product's store and concept unchanged. The row of a product has \<open>waste_flag = 1\<close> exactly
  when the product's concept is the concept of some row of the waste snapshot, whatever the
  store of that row (and \<open>markdown_flag\<close> likewise for the markdown snapshot); both flags
  are 0 or 1, and \<open>priority_score\<close> is their sum, one of 0, 1, 2. A product without a
  concept has both flags 0.
\<close>

theorem priority_scorer_flags:
  assumes "i < length df_products"
    and "p = df_products ! i"
    and "q = products_with_priority df_products df_waste df_markdown ! i"
  shows "length (products_with_priority df_products df_waste df_markdown) = length df_products
    \<and> store q = store p \<and> product_concept q = product_concept p
    \<and> (waste_flag q = 1 \<longleftrightarrow>
            (\<exists>w \<in> set df_waste. \<exists>c. w_concept w = Some c \<and> product_concept p = Some c))
    \<and> (markdown_flag q = 1 \<longleftrightarrow>
            (\<exists>m \<in> set df_markdown. \<exists>c. md_concept m = Some c \<and> product_concept p = Some c))
    \<and> waste_flag q \<in> {0, 1} \<and> markdown_flag q \<in> {0, 1}
    \<and> priority_score q = waste_flag q + markdown_flag q
    \<and> priority_score q \<in> {0, 1, 2}"
proof -
  have len: "length (products_with_priority df_products df_waste df_markdown) = length df_products"
    by (simp add: products_with_priority_def)
  from assms have
    q: "q = priority_scorer (waste_concepts df_waste) (markdown_concepts df_markdown) p"
    by (simp add: products_with_priority_def)
  have same: "store q = store p \<and> product_concept q = product_concept p"
    by (simp add: q priority_scorer_fields)
  have w1: "waste_flag q = 1 \<longleftrightarrow>
      (\<exists>w \<in> set df_waste. \<exists>c. w_concept w = Some c \<and> product_concept p = Some c)"
    unfolding q priority_scorer_fields
    by (auto simp: astype_int_def isin_iff set_waste_concepts)
  have m1: "markdown_flag q = 1 \<longleftrightarrow>
      (\<exists>m \<in> set df_markdown. \<exists>c. md_concept m = Some c \<and> product_concept p = Some c)"
    unfolding q priority_scorer_fields
    by (auto simp: astype_int_def isin_iff set_markdown_concepts)
  have wr: "waste_flag q \<in> {0, 1}"
    by (simp add: q priority_scorer_fields astype_int_def)
  have mr: "markdown_flag q \<in> {0, 1}"
    by (simp add: q priority_scorer_fields astype_int_def)
  have ps: "priority_score q = waste_flag q + markdown_flag q"
    by (simp add: q priority_scorer_fields)
  have pr: "priority_score q \<in> {0, 1, 2}"
    using wr mr unfolding ps by auto
  show ?thesis using len same w1 m1 wr mr ps pr by blast
qed

text \<open>
  The theorem at the example snapshot: the yogurt of store 1024 is flagged through a waste
  row of store 3298, and the product without concept has no flag.
\<close>

theorem priority_scorer_flags_witness:
  "(0::nat) < length ex_products
   \<and> store (products_with_priority ex_products ex_waste ex_markdown ! 0) = 1024
   \<and> map w_store ex_waste = [3298, 3298]
   \<and> waste_flag (products_with_priority ex_products ex_waste ex_markdown ! 0) = 1
   \<and> markdown_flag (products_with_priority ex_products ex_waste ex_markdown ! 0) = 0
   \<and> priority_score (products_with_priority ex_products ex_waste ex_markdown ! 0) = 1
   \<and> priority_score (products_with_priority ex_products ex_waste ex_markdown ! 0) \<in> {0, 1, 2}
   \<and> priority_score (products_with_priority ex_products ex_waste ex_markdown ! 2) = 0"
proof -
  let ?q = "products_with_priority ex_products ex_waste ex_markdown ! 0"
  have len: "(0::nat) < length ex_products"
    by (simp add: ex_products_def)
  have vals: "store ?q = 1024 \<and> waste_flag ?q = 1 \<and> markdown_flag ?q = 0"
    by (simp add: products_with_priority_def ex_products_def ex_waste_def ex_markdown_def
        priority_scorer_fields waste_concepts_def markdown_concepts_def unique_def dropna_def
        List.map_filter_def isin_def astype_int_def)
  have stores: "map w_store ex_waste = [3298, 3298]"
    by (simp add: ex_waste_def)
  have none: "priority_score (products_with_priority ex_products ex_waste ex_markdown ! 2) = 0"
    by (simp add: products_with_priority_def ex_products_def priority_scorer_fields isin_def
        astype_int_def)
  from priority_scorer_flags [OF len refl refl, of ex_waste ex_markdown] vals len stores none
  show ?thesis by simp
qed

subsection \<open>Helper facts on groups and rounding\<close>

lemma set_groupby_keys: "set (groupby_keys key rows) = key ` set rows"
  by (simp add: groupby_keys_def)

lemma groupby_keys_strict: "sorted_wrt (<) (groupby_keys key rows)"
  unfolding groupby_keys_def by (simp add: strict_sorted_iff)

lemma nunique_card: "nunique xs = card (set xs)"
  by (simp add: nunique_def length_remdups_card_conv)

lemma nunique_subset_eq:
  assumes "set xs \<subseteq> set ys" and "nunique xs = nunique ys"
  shows "set xs = set ys"
  using assms by (simp add: nunique_card card_subset_eq)

lemma rint_bound: "\<bar>of_int (rint x) - x\<bar> \<le> 1 / 2"
proof -
  define f where "f = \<lfloor>x\<rfloor>"
  have lo: "of_int f \<le> x" and hi: "x < of_int f + 1"
    unfolding f_def by linarith+
  show ?thesis
  proof (cases "x - of_int f < 1 / 2")
    case True
    then have "rint x = f" by (simp add: rint_def f_def)
    with True lo show ?thesis by simp
  next
    case False
    show ?thesis
    proof (cases "1 / 2 < x - of_int f")
      case True
      with False have "rint x = f + 1" by (simp add: rint_def f_def)
      with True hi show ?thesis by simp
    next
      case half: False
      with False have d: "x - of_int f = 1 / 2" by simp
      have "rint x = f \<or> rint x = f + 1"
        using d by (simp add: rint_def f_def Let_def)
      with d show ?thesis by auto
    qed
  qed
qed

subsection \<open>Rounding to the nearest double\<close>

lemma expo_bounds: "0 < x \<Longrightarrow> 2 powi (expo x) \<le> x \<and> x < 2 powi (expo x + 1)"
proof (induction x rule: expo.induct)
  case (1 x)
  show ?case
  proof (cases "2 \<le> x")
    case True
    then have e: "expo x = expo (x / 2) + 1" by (subst expo.simps) simp
    from True 1 have "2 powi (expo (x / 2)) \<le> x / 2 \<and> x / 2 < 2 powi (expo (x / 2) + 1)" by simp
    then show ?thesis unfolding e by (simp add: power_int_add)
  next
    case False
    show ?thesis
    proof (cases "x < 1")
      case True
      with False "1.prems" have e: "expo x = expo (x * 2) - 1" by (subst expo.simps) simp
      from True False 1 have "2 powi (expo (x * 2)) \<le> x * 2 \<and> x * 2 < 2 powi (expo (x * 2) + 1)" by simp
      then show ?thesis unfolding e by (simp add: power_int_add power_int_diff)
    next
      case ge: False
      with False have e: "expo x = 0" by (subst expo.simps) simp
      from ge False show ?thesis unfolding e by simp
    qed
  qed
qed

lemma ulp_pos: "0 < ulp x"
  by (simp add: ulp_def)

lemma binary64_zero: "binary64 0 = 0"
  by (simp add: binary64_def rint_def)

lemma binary64_error:
  assumes "\<bar>x\<bar> \<le> 2 powi n" and "- 1022 \<le> n"
  shows "\<bar>binary64 x - x\<bar> \<le> 2 powi (n - 53)"
proof (cases "x = 0")
  case True
  then show ?thesis by (simp add: binary64_zero)
next
  case False
  then have pos: "0 < \<bar>x\<bar>" by simp
  from expo_bounds [OF pos] assms(1) have "(2::real) powi (expo \<bar>x\<bar>) \<le> 2 powi n" by linarith
  then have "expo \<bar>x\<bar> \<le> n"
    using power_int_strict_increasing [of n "expo \<bar>x\<bar>" "2::real"] by (cases "expo \<bar>x\<bar> \<le> n") auto
  with assms(2) have "max (expo \<bar>x\<bar>) (- 1022) - 52 \<le> n - 52" by simp
  then have u: "ulp x \<le> 2 powi (n - 52)" unfolding ulp_def by (intro power_int_increasing) simp_all
  have "binary64 x - x = (of_int (rint (x / ulp x)) - x / ulp x) * ulp x"
    using ulp_pos [of x] by (simp add: binary64_def algebra_simps)
  then have "\<bar>binary64 x - x\<bar> = \<bar>of_int (rint (x / ulp x)) - x / ulp x\<bar> * ulp x"
    using ulp_pos [of x] by (simp add: abs_mult)
  also have "\<dots> \<le> 1 / 2 * ulp x"
    using rint_bound [of "x / ulp x"] ulp_pos [of x] by (intro mult_right_mono) simp_all
  also have "\<dots> \<le> 1 / 2 * 2 powi (n - 52)" using u by simp
  also have "\<dots> = 2 powi (n - 53)"
  proof -
    have "(2::real) powi ((n - 53) + 1) = 2 powi (n - 53) * 2" by (rule power_int_add_1) simp
    then show ?thesis by simp
  qed
  finally show ?thesis .
qed

lemma binary64_error_nat:
  assumes "\<bar>x\<bar> \<le> 2 ^ n"
  shows "\<bar>binary64 x - x\<bar> \<le> 2 ^ n * unit_roundoff"
proof -
  from assms have "\<bar>x\<bar> \<le> 2 powi (int n)" by simp
  then have "\<bar>binary64 x - x\<bar> \<le> 2 powi (int n - 53)" by (rule binary64_error) simp
  also have "(2::real) powi (int n - 53) = 2 powi (int n) / 2 powi 53" by (rule power_int_diff) simp
  finally show ?thesis by (simp add: unit_roundoff_def)
qed

lemma expo_unique:
  assumes "2 powi e \<le> x" and "x < 2 powi (e + 1)"
  shows "expo x = e"
proof -
  have "0 < (2::real) powi e" by simp
  with assms(1) have "0 < x" by linarith
  from expo_bounds [OF this] have b: "2 powi (expo x) \<le> x" "x < 2 powi (expo x + 1)" by simp_all
  have "e < expo x + 1"
  proof (rule ccontr)
    assume "\<not> e < expo x + 1"
    then have "(2::real) powi (expo x + 1) \<le> 2 powi e" by (intro power_int_increasing) simp_all
    with b(2) assms(1) show False by linarith
  qed
  moreover have "expo x < e + 1"
  proof (rule ccontr)
    assume "\<not> expo x < e + 1"
    then have "(2::real) powi (e + 1) \<le> 2 powi (expo x)" by (intro power_int_increasing) simp_all
    with b(1) assms(2) show False by linarith
  qed
  ultimately show ?thesis by simp
qed

lemma rint_eqI:
  assumes "\<bar>x - of_int m\<bar> < 1 / 2"
  shows "rint x = m"
proof -
  from rint_bound [of x] assms have "\<bar>(of_int (rint x) :: real) - of_int m\<bar> < 1" by linarith
  then have "\<bar>(of_int (rint x - m) :: real)\<bar> < 1" by simp
  then have "\<bar>rint x - m\<bar> < 1" by (simp only: of_int_abs [symmetric] of_int_less_1_iff)
  then show ?thesis by simp
qed

lemma rint_tieI:
  assumes "x = of_int f + 1 / 2" and "m = (if even f then f else f + 1)"
  shows "rint x = m"
proof -
  have "\<lfloor>x\<rfloor> = f" unfolding assms(1) by linarith
  then show ?thesis unfolding rint_def Let_def using assms by simp
qed

text \<open>
  The double nearest to \<open>x\<close>, given the exponent of \<open>x\<close> and the integer nearest to its
  significand, or the integer below it when the significand lies halfway between two.
\<close>

lemma binary64_eqI:
  assumes "2 powi e \<le> \<bar>x\<bar>" and "\<bar>x\<bar> < 2 powi (e + 1)" and "- 1022 \<le> e"
    and "\<bar>x / 2 powi (e - 52) - of_int m\<bar> < 1 / 2"
    and "y = of_int m * 2 powi (e - 52)"
  shows "binary64 x = y"
proof -
  from assms(1,2) have "expo \<bar>x\<bar> = e" by (rule expo_unique)
  with assms(3) have u: "ulp x = 2 powi (e - 52)" by (simp add: ulp_def)
  from assms(4) have "rint (x / 2 powi (e - 52)) = m" by (rule rint_eqI)
  with u assms(5) show ?thesis by (simp add: binary64_def)
qed

lemma binary64_tieI:
  assumes "2 powi e \<le> \<bar>x\<bar>" and "\<bar>x\<bar> < 2 powi (e + 1)" and "- 1022 \<le> e"
    and "x / 2 powi (e - 52) = of_int f + 1 / 2"
    and "y = of_int (if even f then f else f + 1) * 2 powi (e - 52)"
  shows "binary64 x = y"
proof -
  from assms(1,2) have "expo \<bar>x\<bar> = e" by (rule expo_unique)
  with assms(3) have u: "ulp x = 2 powi (e - 52)" by (simp add: ulp_def)
  from assms(4) have "rint (x / 2 powi (e - 52)) = (if even f then f else f + 1)"
    by (rule rint_tieI) simp
  with u assms(5) show ?thesis by (simp add: binary64_def)
qed

lemma binary64_6_10: "binary64 (6 / 10) = 5404319552844595 / 9007199254740992"
  by (rule binary64_eqI [where e = "- 1" and m = 5404319552844595]) simp_all

lemma binary64_4_10: "binary64 (4 / 10) = 3602879701896397 / 9007199254740992"
  by (rule binary64_eqI [where e = "- 2" and m = 7205759403792794]) simp_all

lemma binary64_5: "binary64 (5) = 5"
  by (rule binary64_eqI [where e = 2 and m = 5629499534213120]) simp_all

lemma binary64_10: "binary64 (10) = 10"
  by (rule binary64_eqI [where e = 3 and m = 5629499534213120]) simp_all

lemma weight_fuzzy: "WEIGHT_FUZZY = 5404319552844595 / 9007199254740992"
  unfolding WEIGHT_FUZZY_def by (rule binary64_6_10)

lemma weight_semantic_100: "binary64 (WEIGHT_SEMANTIC * 100) = 40"
  unfolding WEIGHT_SEMANTIC_def binary64_4_10
  by (rule binary64_eqI [where e = 5 and m = 5629499534213120]) simp_all

lemma bonus_exact: "k \<in> {0, 1, 2} \<Longrightarrow> binary64 (of_int (PRIORITY_BONUS * k)) = of_int (5 * k)"
  unfolding PRIORITY_BONUS_def using binary64_zero binary64_5 binary64_10 by auto

lemma unit_roundoff_val: "unit_roundoff * 9007199254740992 = 1"
  by (simp add: unit_roundoff_def)

lemma boosted_sum_error:
  assumes f: "0 \<le> fuzzy" "fuzzy \<le> 100" and s: "\<bar>semantic\<bar> \<le> 5 / 4"
    and k: "wflag + mflag \<in> {0, 1, 2}"
  shows "\<bar>boosted_sum fuzzy semantic wflag mflag
           - (6 / 10 * fuzzy + 4 / 10 * (100 * semantic) + 5 * of_int (wflag + mflag))\<bar>
           \<le> 512 * unit_roundoff
         \<and> \<bar>boosted_sum fuzzy semantic wflag mflag\<bar> \<le> 121"
proof -
  note u = unit_roundoff_val
  define k where "k = (of_int (wflag + mflag) :: real)"
  define W where "W = WEIGHT_FUZZY * fuzzy"
  define a where "a = binary64 W"
  define b where "b = binary64 (40 * semantic)"
  define c where "c = binary64 (a + b)"
  define d where "d = binary64 (c + 5 * k)"
  have k01: "0 \<le> k" "k \<le> 2" using k by (auto simp: k_def)
  have d_eq: "boosted_sum fuzzy semantic wflag mflag = d"
    using bonus_exact [OF k]
    by (simp add: boosted_sum_def weight_semantic_100 W_def a_def b_def c_def d_def k_def)
  have W: "\<bar>W - 6 / 10 * fuzzy\<bar> \<le> 100 * unit_roundoff"
  proof -
    have "\<bar>WEIGHT_FUZZY - 6 / 10\<bar> \<le> unit_roundoff" unfolding weight_fuzzy unit_roundoff_def by simp
    then have "\<bar>WEIGHT_FUZZY - 6 / 10\<bar> * \<bar>fuzzy\<bar> \<le> unit_roundoff * 100"
      using f by (intro mult_mono) (simp_all add: unit_roundoff_def)
    moreover have "W - 6 / 10 * fuzzy = (WEIGHT_FUZZY - 6 / 10) * fuzzy"
      by (simp add: W_def algebra_simps)
    ultimately show ?thesis by (simp add: abs_mult)
  qed
  have "\<bar>W\<bar> \<le> 64" using W f u by linarith
  then have "\<bar>W\<bar> \<le> 2 ^ 6" by simp
  from binary64_error_nat [OF this] have a: "\<bar>a - W\<bar> \<le> 64 * unit_roundoff"
    by (simp add: a_def)
  have "\<bar>40 * semantic\<bar> \<le> 2 ^ 6" using s by simp
  from binary64_error_nat [OF this] have b: "\<bar>b - 40 * semantic\<bar> \<le> 64 * unit_roundoff"
    by (simp add: b_def)
  have "\<bar>a + b\<bar> \<le> 128" using a W f b s u by linarith
  then have "\<bar>a + b\<bar> \<le> 2 ^ 7" by simp
  from binary64_error_nat [OF this] have c: "\<bar>c - (a + b)\<bar> \<le> 128 * unit_roundoff"
    by (simp add: c_def)
  have "\<bar>c + 5 * k\<bar> \<le> 128" using c a W f b s k01 u by linarith
  then have "\<bar>c + 5 * k\<bar> \<le> 2 ^ 7" by simp
  from binary64_error_nat [OF this] have d: "\<bar>d - (c + 5 * k)\<bar> \<le> 128 * unit_roundoff"
    by (simp add: d_def)
  have err: "\<bar>d - (6 / 10 * fuzzy + 4 / 10 * (100 * semantic) + 5 * k)\<bar> \<le> 512 * unit_roundoff"
    using W a b c d by linarith
  have "\<bar>d\<bar> \<le> 121" using err f s k01 u by linarith
  with err show ?thesis unfolding d_eq k_def by simp
qed

lemma np_round2_error:
  assumes "\<bar>d\<bar> \<le> 121"
  shows "\<bar>np_round2 d - d\<bar> \<le> 1 / 200 + 300 * unit_roundoff"
proof -
  note u = unit_roundoff_val
  define e where "e = binary64 (d * 100)"
  define n where "n = rint e"
  define q where "q = (of_int n / 100 :: real)"
  from assms have "\<bar>d * 100\<bar> \<le> 2 ^ 14" by simp
  from binary64_error_nat [OF this] have e: "\<bar>e - d * 100\<bar> \<le> 16384 * unit_roundoff"
    by (simp add: e_def)
  have "\<bar>of_int n - e\<bar> \<le> 1 / 2" unfolding n_def by (rule rint_bound)
  then have n: "\<bar>q * 100 - e\<bar> \<le> 1 / 2" by (simp add: q_def)
  have "\<bar>q\<bar> \<le> 128" using n e assms u by linarith
  then have "\<bar>q\<bar> \<le> 2 ^ 7" by simp
  from binary64_error_nat [OF this] have r: "\<bar>np_round2 d - q\<bar> \<le> 128 * unit_roundoff"
    by (simp add: np_round2_def e_def n_def q_def)
  from r n e show ?thesis by linarith
qed

lemma final_score_error:
  assumes f: "0 \<le> fuzzy" "fuzzy \<le> 100" and s: "\<bar>semantic\<bar> \<le> 5 / 4"
    and k: "wflag + mflag \<in> {0, 1, 2}"
  shows "\<bar>final_score fuzzy semantic wflag mflag
           - (6 / 10 * fuzzy + 4 / 10 * (100 * semantic) + 5 * of_int (wflag + mflag))\<bar>
         \<le> 1 / 200 + 1024 * unit_roundoff"
proof -
  note b = boosted_sum_error [OF assms]
  from b [THEN conjunct1] np_round2_error [OF b [THEN conjunct2]]
  show ?thesis unfolding final_score_def by linarith
qed

subsection \<open>The score at three matches\<close>

lemma boosted_sum_71_00: "boosted_sum 71 (19 / 64) 0 0 = 7666674678156493 / 140737488355328"
proof -
  have a: "binary64 (WEIGHT_FUZZY * 71) = 5995417003936973 / 140737488355328"
    unfolding weight_fuzzy by (rule binary64_eqI [where e = 5 and m = 5995417003936973]) simp_all
  have b: "binary64 (40 * (19 / 64)) = 95 / 8"
    by (rule binary64_eqI [where e = 3 and m = 6685030696878080]) simp_all
  have c: "binary64 (5995417003936973 / 140737488355328 + 95 / 8) = 7666674678156493 / 140737488355328"
    by (rule binary64_eqI [where e = 5 and m = 7666674678156493]) simp_all
  have k: "binary64 (of_int (PRIORITY_BONUS * (0 + 0))) = 0"
    by (simp add: PRIORITY_BONUS_def binary64_zero binary64_10)
  have d: "binary64 (7666674678156493 / 140737488355328 + 0) = 7666674678156493 / 140737488355328"
    by (rule binary64_eqI [where e = 5 and m = 7666674678156493]) simp_all
  show ?thesis by (simp only: boosted_sum_def weight_semantic_100 a b c k d)
qed

lemma final_score_71_00: "final_score 71 (19 / 64) 0 0 = 7667378365598269 / 140737488355328"
proof -
  have e: "binary64 (7666674678156493 / 140737488355328 * 100) = 10895 / 2"
    by (rule binary64_eqI [where e = 12 and m = 5989589592309760]) simp_all
  have n: "rint (10895 / 2) = 5448"
    by (rule rint_tieI [where f = 5447]) simp_all
  have r: "binary64 (of_int 5448 / 100) = 7667378365598269 / 140737488355328"
    by (rule binary64_eqI [where e = 5 and m = 7667378365598269]) simp_all
  show ?thesis by (simp only: final_score_def np_round2_def boosted_sum_71_00 e n r)
qed

lemma boosted_sum_71_11: "boosted_sum 71 (19 / 64) 1 1 = 2268512390427443 / 35184372088832"
proof -
  have a: "binary64 (WEIGHT_FUZZY * 71) = 5995417003936973 / 140737488355328"
    unfolding weight_fuzzy by (rule binary64_eqI [where e = 5 and m = 5995417003936973]) simp_all
  have b: "binary64 (40 * (19 / 64)) = 95 / 8"
    by (rule binary64_eqI [where e = 3 and m = 6685030696878080]) simp_all
  have c: "binary64 (5995417003936973 / 140737488355328 + 95 / 8) = 7666674678156493 / 140737488355328"
    by (rule binary64_eqI [where e = 5 and m = 7666674678156493]) simp_all
  have k: "binary64 (of_int (PRIORITY_BONUS * (1 + 1))) = 10"
    by (simp add: PRIORITY_BONUS_def binary64_zero binary64_10)
  have d: "binary64 (7666674678156493 / 140737488355328 + 10) = 2268512390427443 / 35184372088832"
    by (rule binary64_tieI [where e = 6 and f = 4537024780854886]) simp_all
  show ?thesis by (simp only: boosted_sum_def weight_semantic_100 a b c k d)
qed

lemma final_score_71_11: "final_score 71 (19 / 64) 1 1 = 2268336468566999 / 35184372088832"
proof -
  have e: "binary64 (2268512390427443 / 35184372088832 * 100) = 7089101220085759 / 1099511627776"
    by (rule binary64_eqI [where e = 12 and m = 7089101220085759]) simp_all
  have n: "rint (7089101220085759 / 1099511627776) = 6447"
    by (rule rint_eqI) simp
  have r: "binary64 (of_int 6447 / 100) = 2268336468566999 / 35184372088832"
    by (rule binary64_eqI [where e = 6 and m = 4536672937133998]) simp_all
  show ?thesis by (simp only: final_score_def np_round2_def boosted_sum_71_11 e n r)
qed

lemma binary64_54475: "binary64 (54475 / 1000) = 7666674678156493 / 140737488355328"
  by (rule binary64_eqI [where e = 5 and m = 7666674678156493]) simp_all

lemma binary64_64475: "binary64 (64475 / 1000) = 2268512390427443 / 35184372088832"
  by (rule binary64_eqI [where e = 6 and m = 4537024780854886]) simp_all

lemma binary64_5448: "binary64 (5448 / 100) = 7667378365598269 / 140737488355328"
  by (rule binary64_eqI [where e = 5 and m = 7667378365598269]) simp_all

lemma binary64_6447: "binary64 (6447 / 100) = 2268336468566999 / 35184372088832"
  by (rule binary64_eqI [where e = 6 and m = 4536672937133998]) simp_all

lemma boosted_sum_100_00: "boosted_sum 100 1 0 0 = 100"
proof -
  have a: "binary64 (WEIGHT_FUZZY * 100) = 60"
    unfolding weight_fuzzy by (rule binary64_eqI [where e = 5 and m = 8444249301319680]) simp_all
  have b: "binary64 (40 * 1) = 40"
    by (rule binary64_eqI [where e = 5 and m = 5629499534213120]) simp_all
  have c: "binary64 (60 + 40) = 100"
    by (rule binary64_eqI [where e = 6 and m = 7036874417766400]) simp_all
  have k: "binary64 (of_int (PRIORITY_BONUS * (0 + 0))) = 0"
    by (simp add: PRIORITY_BONUS_def binary64_zero binary64_10)
  have d: "binary64 (100 + 0) = 100"
    by (rule binary64_eqI [where e = 6 and m = 7036874417766400]) simp_all
  show ?thesis by (simp only: boosted_sum_def weight_semantic_100 a b c k d)
qed

lemma final_score_100_00: "final_score 100 1 0 0 = 100"
proof -
  have e: "binary64 (100 * 100) = 10000"
    by (rule binary64_eqI [where e = 13 and m = 5497558138880000]) simp_all
  have n: "rint (10000) = 10000"
    by (rule rint_eqI) simp
  have r: "binary64 (of_int 10000 / 100) = 100"
    by (rule binary64_eqI [where e = 6 and m = 7036874417766400]) simp_all
  show ?thesis by (simp only: final_score_def np_round2_def boosted_sum_100_00 e n r)
qed

subsection \<open>C1: the boosted score of a match\<close>

text \<open>
  C1 as stated fails: the column \<open>final_score\<close> is rounded to two decimals after the weighted
  sum. With a fuzzy score of 71 and a similarity of 19/64 = 0.296875 the weighted sum is
  54.475, computed as the double nearest to it, and the stored score is the double nearest to
  54.48. With both flags the sum is the double nearest to 64.475 and the stored score the
  double nearest to 64.47: the bonus of the product flagged twice is not 10.
\<close>

theorem final_score_not_weighted_sum:
  "spec_final_score 71 (19 / 64) 0 0 = 54475 / 1000
   \<and> boosted_sum 71 (19 / 64) 0 0 = binary64 (54475 / 1000)
   \<and> final_score 71 (19 / 64) 0 0 = binary64 (5448 / 100)
   \<and> final_score 71 (19 / 64) 0 0 \<noteq> spec_final_score 71 (19 / 64) 0 0
   \<and> final_score 71 (19 / 64) 0 0 \<noteq> boosted_sum 71 (19 / 64) 0 0
   \<and> boosted_sum 71 (19 / 64) 1 1 = binary64 (64475 / 1000)
   \<and> final_score 71 (19 / 64) 1 1 = binary64 (6447 / 100)
   \<and> final_score 71 (19 / 64) 1 1 - final_score 71 (19 / 64) 0 0 \<noteq> 10"
  unfolding boosted_sum_71_00 boosted_sum_71_11 final_score_71_00 final_score_71_11
    binary64_54475 binary64_64475 binary64_5448 binary64_6447
  by (simp add: spec_final_score_def)

text \<open>
  C1, amended. For a fuzzy score between 0 and 100, a similarity of magnitude at most 1.25
  and flags that are 0 or 1, the stored score is the double nearest to a multiple of 0.01 and
  lies within 0.005 (and the rounding of the eight operations, at most \<open>1 / 2 ^ 43\<close>) of
  \<open>0.6 * fuzzy_score + 0.4 * (100 * semantic_score) + 5 * (waste_flag + markdown_flag)\<close>; the
  stored score of a product flagged twice is within 0.01 (and \<open>1 / 2 ^ 42\<close>) of 10 more than the
  stored score of the same pair with neither flag.
\<close>

theorem final_score_rounded_weighted_sum:
  assumes "0 \<le> fuzzy" and "fuzzy \<le> 100" and "\<bar>semantic\<bar> \<le> 5 / 4"
    and "wflag \<in> {0, 1}" and "mflag \<in> {0, 1}"
  shows "(\<exists>n. final_score fuzzy semantic wflag mflag = binary64 (of_int n / 100))
   \<and> \<bar>final_score fuzzy semantic wflag mflag - spec_final_score fuzzy semantic wflag mflag\<bar>
       \<le> 1 / 200 + 1 / 2 ^ 43
   \<and> \<bar>final_score fuzzy semantic 1 1 - final_score fuzzy semantic 0 0 - 10\<bar>
       \<le> 1 / 100 + 1 / 2 ^ 42"
proof -
  note u = unit_roundoff_val
  have k: "wflag + mflag \<in> {0, 1, 2}" using assms(4,5) by auto
  have "\<bar>final_score fuzzy semantic wflag mflag - spec_final_score fuzzy semantic wflag mflag\<bar>
       \<le> 1 / 200 + 1024 * unit_roundoff"
    unfolding spec_final_score_def using assms(1-3) k by (rule final_score_error)
  then have near: "\<bar>final_score fuzzy semantic wflag mflag
        - spec_final_score fuzzy semantic wflag mflag\<bar> \<le> 1 / 200 + 1 / 2 ^ 43"
    by (simp add: unit_roundoff_def)
  have both: "\<bar>final_score fuzzy semantic 1 1
        - (6 / 10 * fuzzy + 4 / 10 * (100 * semantic) + 5 * of_int (1 + 1))\<bar>
       \<le> 1 / 200 + 1024 * unit_roundoff"
    using assms(1-3) by (rule final_score_error) simp
  have none: "\<bar>final_score fuzzy semantic 0 0
        - (6 / 10 * fuzzy + 4 / 10 * (100 * semantic) + 5 * of_int (0 + 0))\<bar>
       \<le> 1 / 200 + 1024 * unit_roundoff"
    using assms(1-3) by (rule final_score_error) simp
  have "\<bar>final_score fuzzy semantic 1 1 - final_score fuzzy semantic 0 0 - 10\<bar>
       \<le> 1 / 100 + 2048 * unit_roundoff"
    using both none by simp
  then have bonus: "\<bar>final_score fuzzy semantic 1 1 - final_score fuzzy semantic 0 0 - 10\<bar>
       \<le> 1 / 100 + 1 / 2 ^ 42"
    by (simp add: unit_roundoff_def)
  have "\<exists>n. final_score fuzzy semantic wflag mflag = binary64 (of_int n / 100)"
    unfolding final_score_def np_round2_def by blast
  with near bonus show ?thesis by blast
qed

text \<open>
  The theorem at the pair of the counterexample, flagged twice.
\<close>

theorem final_score_rounded_weighted_sum_witness:
  "\<bar>final_score 71 (19 / 64) 1 1 - spec_final_score 71 (19 / 64) 1 1\<bar> \<le> 1 / 200 + 1 / 2 ^ 43
   \<and> \<bar>final_score 71 (19 / 64) 1 1 - final_score 71 (19 / 64) 0 0 - 10\<bar> \<le> 1 / 100 + 1 / 2 ^ 42"
  using final_score_rounded_weighted_sum [of 71 "19 / 64" 1 1] by simp

subsection \<open>Helper facts on the tables of Notebooks 10 and 20\<close>

lemma agg_group_fields:
  "a_store (agg_group F R k) = fst k" "a_recipe (agg_group F R k) = snd k"
  "matched_ingredients (agg_group F R k) =
     nunique (map m_ingredient (filter (\<lambda>m. (m_store m, m_recipe m) = k) F))"
  "avg_score (agg_group F R k) = mean (map final_score_of (filter (\<lambda>m. (m_store m, m_recipe m) = k) F))"
  "n_ingredients (agg_group F R k) = map_of (df_total_ingredients R) (snd k)"
  "coverage (agg_group F R k) =
     map_option (\<lambda>n. real (matched_ingredients (agg_group F R k)) / real n) (n_ingredients (agg_group F R k))"
  by (simp_all add: agg_group_def Let_def)

lemma coverage_one:
  assumes "coverage (agg_group F R k) = Some 1"
  shows "n_ingredients (agg_group F R k) = Some (matched_ingredients (agg_group F R k))"
proof -
  from assms obtain n where n: "n_ingredients (agg_group F R k) = Some n"
    and q: "real (matched_ingredients (agg_group F R k)) / real n = 1"
    unfolding agg_group_fields(6) by (cases "n_ingredients (agg_group F R k)") auto
  from q have "n \<noteq> 0" by (cases n) auto
  with q have "matched_ingredients (agg_group F R k) = n" by (simp add: field_simps)
  with n show ?thesis by simp
qed

lemma recipe_store_ranked_filter:
  assumes "a \<in> set (recipe_store_ranked F R)"
  shows "coverage a = Some 1 \<and> n_ingredients a = Some (matched_ingredients a) \<and> 40 \<le> avg_score a
    \<and> (\<exists>m \<in> set F. m_store m = a_store a \<and> m_recipe m = a_recipe a)"
proof -
  from assms have mem: "a \<in> set (df_agg F R)" and cov: "coverage a = Some 1"
    and avg: "min_avg_score \<le> avg_score a"
    by (auto simp: recipe_store_ranked_def df_ranked_filter_def)
  from mem obtain k where k: "k \<in> (\<lambda>m. (m_store m, m_recipe m)) ` set F" and a: "a = agg_group F R k"
    by (auto simp: df_agg_def set_groupby_keys)
  from cov have "n_ingredients a = Some (matched_ingredients a)"
    unfolding a by (rule coverage_one)
  moreover from k have "\<exists>m \<in> set F. m_store m = a_store a \<and> m_recipe m = a_recipe a"
    unfolding a agg_group_fields by auto
  ultimately show ?thesis using cov avg by (simp add: min_avg_score_def)
qed

lemma flags_binary:
  assumes "p \<in> set (products_with_priority products W M)"
  shows "waste_flag p \<in> {0, 1} \<and> markdown_flag p \<in> {0, 1}"
  using assms by (auto simp: products_with_priority_def priority_scorer_fields astype_int_def)

lemma enrich_match_row:
  assumes "e \<in> set (enrich_match prods k m)"
  shows "e_store e = fst k \<and> e_recipe e = snd k
    \<and> (case e_product e of None \<Rightarrow> True
        | Some p \<Rightarrow> p \<in> set prods \<and> store p = fst k \<and> product_concept p = sm_ingredient_concept m)"
  using assms by (auto simp: enrich_match_def Let_def split: if_splits)

lemma df_enriched_row:
  assumes "e \<in> set (df_enriched P dfm)"
  shows "(e_store e, e_recipe e) \<in> set (df_complete dfm)
    \<and> (\<exists>m \<in> set dfm. sm_store m = e_store e \<and> sm_recipe m = Some (e_recipe e)
          \<and> (\<exists>p \<in> set P. store p = e_store e \<and> product_concept p = sm_ingredient_concept m
                \<and> product_concept p \<noteq> None \<and> 0 < waste_flag p + markdown_flag p))"
proof -
  from assms obtain k m where k: "k \<in> set (df_complete dfm)"
    and m: "m \<in> set dfm" "sm_store m = fst k" "sm_recipe m = Some (snd k)"
    and e: "e \<in> set (enrich_match (df_products_subset P) k m)"
    and fl: "0 < flagged e"
    by (auto simp: df_enriched_def enrich_pair_def)
  from enrich_match_row [OF e] have key: "e_store e = fst k" "e_recipe e = snd k"
    and prod: "case e_product e of None \<Rightarrow> True
        | Some p \<Rightarrow> p \<in> set (df_products_subset P) \<and> store p = fst k \<and> product_concept p = sm_ingredient_concept m"
    by simp_all
  from fl obtain p where p: "e_product e = Some p" and pos: "0 < waste_flag p + markdown_flag p"
    by (cases "e_product e") (auto simp: flagged_def)
  from prod p have pp: "p \<in> set P" "product_concept p \<noteq> None" "store p = fst k"
    "product_concept p = sm_ingredient_concept m"
    by (auto simp: df_products_subset_def)
  have "\<exists>p \<in> set P. store p = e_store e \<and> product_concept p = sm_ingredient_concept m
                \<and> product_concept p \<noteq> None \<and> 0 < waste_flag p + markdown_flag p"
    using pp pos key by (intro bexI [of _ p]) simp_all
  with m key have "\<exists>m \<in> set dfm. sm_store m = e_store e \<and> sm_recipe m = Some (e_recipe e)
          \<and> (\<exists>p \<in> set P. store p = e_store e \<and> product_concept p = sm_ingredient_concept m
                \<and> product_concept p \<noteq> None \<and> 0 < waste_flag p + markdown_flag p)"
    by (intro bexI [of _ m]) simp_all
  moreover have "(e_store e, e_recipe e) \<in> set (df_complete dfm)" using k key by simp
  ultimately show ?thesis by blast
qed

lemma df_complete_all_available:
  assumes "k \<in> set (df_complete dfm)"
  shows "available_ingredients dfm k = ingredients_per_recipe dfm (snd k)
    \<and> (\<forall>m \<in> set dfm. sm_recipe m = Some (snd k) \<longrightarrow>
          (\<exists>a \<in> set dfm. match_available a \<and> sm_store a = fst k \<and> sm_recipe a = Some (snd k)
              \<and> sm_ingredient a = sm_ingredient m))"
proof -
  let ?A = "map sm_ingredient (filter (\<lambda>m. sm_store m = fst k \<and> sm_recipe m = Some (snd k)) (df_available dfm))"
  let ?B = "map sm_ingredient (filter (\<lambda>m. sm_recipe m = Some (snd k)) dfm)"
  from assms have eq: "available_ingredients dfm k = ingredients_per_recipe dfm (snd k)"
    by (simp add: df_complete_def)
  then have "nunique ?A = nunique ?B"
    by (simp add: available_ingredients_def ingredients_per_recipe_def)
  moreover have "set ?A \<subseteq> set ?B" by (auto simp: df_available_def)
  ultimately have "set ?A = set ?B" by (rule nunique_subset_eq [rotated])
  then have "\<forall>m \<in> set dfm. sm_recipe m = Some (snd k) \<longrightarrow> sm_ingredient m \<in> set ?A"
    by auto
  then have "\<forall>m \<in> set dfm. sm_recipe m = Some (snd k) \<longrightarrow>
          (\<exists>a \<in> set dfm. match_available a \<and> sm_store a = fst k \<and> sm_recipe a = Some (snd k)
              \<and> sm_ingredient a = sm_ingredient m)"
    by (auto simp: df_available_def image_iff) metis
  with eq show ?thesis by simp
qed

lemma box_group_key:
  "b_store (box_group E k) = fst k" "b_recipe (box_group E k) = snd k"
  by (simp_all add: box_group_def)

lemma box_priority_row:
  assumes "b \<in> set (box_priority P dfm)"
  shows "\<exists>e \<in> set (df_enriched P dfm). e_store e = b_store b \<and> e_recipe e = b_recipe b"
  using assms by (auto simp: box_priority_def Let_def set_groupby_keys box_group_key)



lemma insort_key_lex:
  assumes "sorted_wrt (\<lambda>a b. f a < f b \<or> (f a = f b \<and> S a b)) xs"
    and "\<forall>y \<in> set xs. S x y"
  shows "sorted_wrt (\<lambda>a b. f a < f b \<or> (f a = f b \<and> S a b)) (insort_key f x xs)"
  using assms
proof (induction xs)
  case Nil
  then show ?case by simp
next
  case (Cons y ys)
  show ?case
  proof (cases "f x \<le> f y")
    case True
    have "f x < f z \<or> (f x = f z \<and> S x z)" if "z \<in> set (y # ys)" for z
    proof -
      have "f y \<le> f z" using that Cons.prems(1) by auto
      with True have "f x \<le> f z" by simp
      moreover have "S x z" using that Cons.prems(2) by auto
      ultimately show ?thesis by auto
    qed
    with True Cons.prems(1) show ?thesis by simp
  next
    case False
    then have "f y < f x" by simp
    moreover have "sorted_wrt (\<lambda>a b. f a < f b \<or> (f a = f b \<and> S a b)) (insort_key f x ys)"
      using Cons by simp
    ultimately show ?thesis using False Cons.prems(1) by (auto simp: set_insort_key)
  qed
qed

lemma sort_key_lex:
  assumes "sorted_wrt S xs"
  shows "sorted_wrt (\<lambda>a b. f a < f b \<or> (f a = f b \<and> S a b)) (sort_key f xs)"
  using assms
proof (induction xs)
  case Nil
  then show ?case by simp
next
  case (Cons x xs)
  have "sorted_wrt (\<lambda>a b. f a < f b \<or> (f a = f b \<and> S a b)) (insort_key f x (sort_key f xs))"
  proof (rule insort_key_lex)
    show "sorted_wrt (\<lambda>a b. f a < f b \<or> (f a = f b \<and> S a b)) (sort_key f xs)"
      using Cons by simp
    show "\<forall>y \<in> set (sort_key f xs). S x y" using Cons.prems by simp
  qed
  then show ?case by (simp add: sort_key_simps)
qed

lemma df_agg_by_key:
  "sorted_wrt (\<lambda>a b. (a_store a, a_recipe a) < (a_store b, a_recipe b)) (df_agg F R)"
  unfolding df_agg_def sorted_wrt_map agg_group_fields(1,2) prod.collapse
  by (rule groupby_keys_strict)

lemma recipe_store_ranked_sorted:
  "sorted_wrt (\<lambda>a b. a_store a < a_store b \<or> (a_store a = a_store b \<and>
       (avg_score b < avg_score a \<or> (avg_score a = avg_score b \<and> a_recipe a < a_recipe b))))
     (recipe_store_ranked F R)"
proof -
  let ?S = "\<lambda>a b. (a_store a, a_recipe a) < (a_store b, a_recipe b)"
  let ?f = "\<lambda>a. (a_store a, - avg_score a)"
  have "sorted_wrt ?S (df_ranked_filter (df_agg F R))"
    unfolding df_ranked_filter_def by (rule sorted_wrt_filter) (rule df_agg_by_key)
  then have "sorted_wrt (\<lambda>a b. ?f a < ?f b \<or> (?f a = ?f b \<and> ?S a b)) (recipe_store_ranked F R)"
    unfolding recipe_store_ranked_def by (rule sort_key_lex)
  then show ?thesis
    by (rule sorted_wrt_mono_rel [rotated]) auto
qed

lemma box_priority_sorted:
  "sorted_wrt (\<lambda>a b. b_store a < b_store b \<or> (b_store a = b_store b \<and>
       (avg_priority b < avg_priority a \<or> (avg_priority a = avg_priority b \<and> b_recipe a < b_recipe b))))
     (box_priority P dfm)"
proof -
  let ?S = "\<lambda>a b. (b_store a, b_recipe a) < (b_store b, b_recipe b)"
  let ?f = "\<lambda>a. (b_store a, - avg_priority a)"
  let ?E = "df_enriched P dfm"
  have "sorted_wrt ?S (map (box_group ?E) (groupby_keys (\<lambda>e. (e_store e, e_recipe e)) ?E))"
    unfolding sorted_wrt_map box_group_key prod.collapse by (rule groupby_keys_strict)
  then have "sorted_wrt (\<lambda>a b. ?f a < ?f b \<or> (?f a = ?f b \<and> ?S a b)) (box_priority P dfm)"
    unfolding box_priority_def Let_def by (rule sort_key_lex)
  then show ?thesis
    by (rule sorted_wrt_mono_rel [rotated]) auto
qed


subsection \<open>C2: what the two ranked outputs keep\<close>

lemma ex_recipe_store_ranked:
  "recipe_store_ranked ex_full ex_yogurt_recipe =
     [\<lparr>a_store = 1024, a_recipe = ''Greek Yogurt & Honey'', matched_ingredients = 1,
       avg_score = 100, n_ingredients = Some 1, coverage = Some 1\<rparr>]"
  by (simp add: recipe_store_ranked_def df_ranked_filter_def df_agg_def agg_group_def
      df_total_ingredients_def groupby_keys_def nunique_def mean_def min_avg_score_def
      final_score_of_def final_score_100_00 ex_full_def ex_yogurt_recipe_def)

text \<open>
  C2 as stated fails on the boosted ranking of Notebook 20, which filters on coverage and on
  the average score only: the fully matched one-ingredient recipe of the example, whose
  product has neither flag, is ranked.
\<close>

theorem recipe_store_ranked_keeps_unflagged:
  "recipe_store_ranked ex_full ex_yogurt_recipe =
     [\<lparr>a_store = 1024, a_recipe = ''Greek Yogurt & Honey'', matched_ingredients = 1,
       avg_score = 100, n_ingredients = Some 1, coverage = Some 1\<rparr>]
   \<and> map m_waste_flag ex_full = [0] \<and> map m_markdown_flag ex_full = [0]"
  using ex_recipe_store_ranked by (simp add: ex_full_def)

text \<open>
  C2, amended. A (store, recipe) pair is in the meal-box ranking of Notebook 10 only if the
  store has an available match for every ingredient of the recipe (the number of distinct
  available ingredients equals the number required) and some ingredient row of the pair has
  a product of its concept in that store with \<open>waste_flag = 1\<close> or \<open>markdown_flag = 1\<close>.
  A pair is in the boosted ranking of Notebook 20 only if its coverage is 1.0, that is, as
  many distinct ingredients are matched as the recipe has, and its average score is at
  least 40; that ranking asks for no flagged product.
\<close>

theorem ranked_outputs_filters:
  assumes "dfm = merge_recipe df_matches df_recipes"
    and "P = products_with_priority products df_waste df_markdown"
  shows "(\<forall>b \<in> set (store_mealbox_candidates products df_waste df_markdown df_matches df_recipes).
            available_ingredients dfm (b_store b, b_recipe b) = ingredients_per_recipe dfm (b_recipe b)
          \<and> (\<forall>m \<in> set dfm. sm_recipe m = Some (b_recipe b) \<longrightarrow>
                (\<exists>a \<in> set dfm. match_available a \<and> sm_store a = b_store b
                    \<and> sm_recipe a = Some (b_recipe b) \<and> sm_ingredient a = sm_ingredient m))
          \<and> (\<exists>m \<in> set dfm. sm_store m = b_store b \<and> sm_recipe m = Some (b_recipe b)
                \<and> (\<exists>p \<in> set P. store p = b_store b \<and> product_concept p = sm_ingredient_concept m
                      \<and> product_concept p \<noteq> None \<and> (waste_flag p = 1 \<or> markdown_flag p = 1))))
    \<and> (\<forall>a \<in> set (recipe_store_ranked df_full recipes).
            coverage a = Some 1 \<and> n_ingredients a = Some (matched_ingredients a)
          \<and> min_avg_score \<le> avg_score a)"
proof (rule conjI)
  show "\<forall>b \<in> set (store_mealbox_candidates products df_waste df_markdown df_matches df_recipes).
            available_ingredients dfm (b_store b, b_recipe b) = ingredients_per_recipe dfm (b_recipe b)
          \<and> (\<forall>m \<in> set dfm. sm_recipe m = Some (b_recipe b) \<longrightarrow>
                (\<exists>a \<in> set dfm. match_available a \<and> sm_store a = b_store b
                    \<and> sm_recipe a = Some (b_recipe b) \<and> sm_ingredient a = sm_ingredient m))
          \<and> (\<exists>m \<in> set dfm. sm_store m = b_store b \<and> sm_recipe m = Some (b_recipe b)
                \<and> (\<exists>p \<in> set P. store p = b_store b \<and> product_concept p = sm_ingredient_concept m
                      \<and> product_concept p \<noteq> None \<and> (waste_flag p = 1 \<or> markdown_flag p = 1)))"
  proof (rule ballI)
    fix b
    assume "b \<in> set (store_mealbox_candidates products df_waste df_markdown df_matches df_recipes)"
    then have "b \<in> set (box_priority P dfm)"
      by (simp add: store_mealbox_candidates_def assms)
    from box_priority_row [OF this] obtain e where e: "e \<in> set (df_enriched P dfm)"
      and key: "e_store e = b_store b" "e_recipe e = b_recipe b"
      by blast
    from df_enriched_row [OF e] key
    have compl: "(b_store b, b_recipe b) \<in> set (df_complete dfm)"
      and fl: "\<exists>m \<in> set dfm. sm_store m = b_store b \<and> sm_recipe m = Some (b_recipe b)
          \<and> (\<exists>p \<in> set P. store p = b_store b \<and> product_concept p = sm_ingredient_concept m
                \<and> product_concept p \<noteq> None \<and> 0 < waste_flag p + markdown_flag p)"
      by simp_all
    from df_complete_all_available [OF compl]
    have cov: "available_ingredients dfm (b_store b, b_recipe b) = ingredients_per_recipe dfm (b_recipe b)
      \<and> (\<forall>m \<in> set dfm. sm_recipe m = Some (b_recipe b) \<longrightarrow>
                (\<exists>a \<in> set dfm. match_available a \<and> sm_store a = b_store b
                    \<and> sm_recipe a = Some (b_recipe b) \<and> sm_ingredient a = sm_ingredient m))"
      by simp
    from fl obtain m p where m: "m \<in> set dfm" "sm_store m = b_store b" "sm_recipe m = Some (b_recipe b)"
      and p: "p \<in> set P" "store p = b_store b" "product_concept p = sm_ingredient_concept m"
        "product_concept p \<noteq> None" and pos: "0 < waste_flag p + markdown_flag p"
      by blast
    from p(1) have "waste_flag p \<in> {0, 1} \<and> markdown_flag p \<in> {0, 1}"
      unfolding assms by (rule flags_binary)
    with pos have "waste_flag p = 1 \<or> markdown_flag p = 1" by auto
    with p have "\<exists>p \<in> set P. store p = b_store b \<and> product_concept p = sm_ingredient_concept m
                      \<and> product_concept p \<noteq> None \<and> (waste_flag p = 1 \<or> markdown_flag p = 1)"
      by (intro bexI [of _ p]) simp_all
    with m have "\<exists>m \<in> set dfm. sm_store m = b_store b \<and> sm_recipe m = Some (b_recipe b)
                \<and> (\<exists>p \<in> set P. store p = b_store b \<and> product_concept p = sm_ingredient_concept m
                      \<and> product_concept p \<noteq> None \<and> (waste_flag p = 1 \<or> markdown_flag p = 1))"
      by (intro bexI [of _ m]) simp_all
    with cov show "available_ingredients dfm (b_store b, b_recipe b) = ingredients_per_recipe dfm (b_recipe b)
          \<and> (\<forall>m \<in> set dfm. sm_recipe m = Some (b_recipe b) \<longrightarrow>
                (\<exists>a \<in> set dfm. match_available a \<and> sm_store a = b_store b
                    \<and> sm_recipe a = Some (b_recipe b) \<and> sm_ingredient a = sm_ingredient m))
          \<and> (\<exists>m \<in> set dfm. sm_store m = b_store b \<and> sm_recipe m = Some (b_recipe b)
                \<and> (\<exists>p \<in> set P. store p = b_store b \<and> product_concept p = sm_ingredient_concept m
                      \<and> product_concept p \<noteq> None \<and> (waste_flag p = 1 \<or> markdown_flag p = 1)))"
      by blast
  qed
next
  show "\<forall>a \<in> set (recipe_store_ranked df_full recipes).
            coverage a = Some 1 \<and> n_ingredients a = Some (matched_ingredients a)
          \<and> min_avg_score \<le> avg_score a"
  proof (rule ballI)
    fix a
    assume "a \<in> set (recipe_store_ranked df_full recipes)"
    from recipe_store_ranked_filter [OF this]
    show "coverage a = Some 1 \<and> n_ingredients a = Some (matched_ingredients a)
          \<and> min_avg_score \<le> avg_score a"
      by (simp add: min_avg_score_def)
  qed
qed

text \<open>
  The theorem at the example tables: store 1024 has yogurt and honey, yogurt is a waste
  concept, and the boosted ranking of the one-ingredient recipe has coverage 1.
\<close>

theorem ranked_outputs_filters_witness:
  "store_mealbox_candidates ex_products ex_waste ex_markdown ex_store_matches ex_recipes
     = [\<lparr>b_store = 1024, b_recipe = ''Greek Yogurt & Honey'', avg_priority = 1\<rparr>]
   \<and> available_ingredients (merge_recipe ex_store_matches ex_recipes) (1024, ''Greek Yogurt & Honey'')
       = ingredients_per_recipe (merge_recipe ex_store_matches ex_recipes) ''Greek Yogurt & Honey''
   \<and> ingredients_per_recipe (merge_recipe ex_store_matches ex_recipes) ''Greek Yogurt & Honey'' = 2
   \<and> coverage (hd (recipe_store_ranked ex_full ex_yogurt_recipe)) = Some 1
   \<and> min_avg_score \<le> avg_score (hd (recipe_store_ranked ex_full ex_yogurt_recipe))"
proof -
  let ?b = "\<lparr>b_store = 1024, b_recipe = ''Greek Yogurt & Honey'', avg_priority = 1\<rparr>"
  have out: "store_mealbox_candidates ex_products ex_waste ex_markdown ex_store_matches ex_recipes = [?b]"
    by code_simp
  have ranked: "hd (recipe_store_ranked ex_full ex_yogurt_recipe)
      \<in> set (recipe_store_ranked ex_full ex_yogurt_recipe)"
    unfolding ex_recipe_store_ranked by simp
  have two: "ingredients_per_recipe (merge_recipe ex_store_matches ex_recipes) ''Greek Yogurt & Honey'' = 2"
    by code_simp
  note inst = ranked_outputs_filters [OF refl refl, of ex_products ex_waste ex_markdown
      ex_store_matches ex_recipes ex_full ex_yogurt_recipe]
  from inst have "\<forall>b \<in> set [?b].
      available_ingredients (merge_recipe ex_store_matches ex_recipes) (b_store b, b_recipe b)
        = ingredients_per_recipe (merge_recipe ex_store_matches ex_recipes) (b_recipe b)"
    unfolding out by blast
  then have a: "available_ingredients (merge_recipe ex_store_matches ex_recipes) (1024, ''Greek Yogurt & Honey'')
       = ingredients_per_recipe (merge_recipe ex_store_matches ex_recipes) ''Greek Yogurt & Honey''"
    by simp
  from inst ranked have b: "coverage (hd (recipe_store_ranked ex_full ex_yogurt_recipe)) = Some 1
   \<and> min_avg_score \<le> avg_score (hd (recipe_store_ranked ex_full ex_yogurt_recipe))"
    by blast
  from out a two b show ?thesis by simp
qed

subsection \<open>C8: the order of the ranked outputs\<close>

text \<open>
  C8. Both ranked outputs, the boosted ranking of Notebook 20 and the meal-box ranking of
  Notebook 10, are ordered by store, within a store by descending score, and rows of one
  store with equal score by ascending recipe name: the rows come out of \<open>groupby\<close> in the
  order of their (store, recipe) keys, and the stable sort on (store, score) keeps that
  order among equal keys. No two rows share store and recipe, so the order is strict.
\<close>

theorem ranked_outputs_sorted:
  "sorted_wrt (\<lambda>a b. a_store a < a_store b \<or> (a_store a = a_store b \<and>
       (avg_score b < avg_score a \<or> (avg_score a = avg_score b \<and> a_recipe a < a_recipe b))))
     (recipe_store_ranked df_full df_recipes)
   \<and> sorted_wrt (\<lambda>a b. b_store a < b_store b \<or> (b_store a = b_store b \<and>
       (avg_priority b < avg_priority a \<or> (avg_priority a = avg_priority b \<and> b_recipe a < b_recipe b))))
     (box_priority df_products dfm)"
proof (rule conjI)
  show "sorted_wrt (\<lambda>a b. a_store a < a_store b \<or> (a_store a = a_store b \<and>
       (avg_score b < avg_score a \<or> (avg_score a = avg_score b \<and> a_recipe a < a_recipe b))))
     (recipe_store_ranked df_full df_recipes)"
    by (rule recipe_store_ranked_sorted)
  show "sorted_wrt (\<lambda>a b. b_store a < b_store b \<or> (b_store a = b_store b \<and>
       (avg_priority b < avg_priority a \<or> (avg_priority a = avg_priority b \<and> b_recipe a < b_recipe b))))
     (box_priority df_products dfm)"
    by (rule box_priority_sorted)
qed

subsection \<open>The random baseline: what a draw depends on\<close>

lemma random_matches_seeded:
  "random_matches np products rows g =
     (concat (map (\<lambda>row. if filter (\<lambda>p. store p = si_store row) products = [] then []
                          else [make_match row (random_pick np products (si_store row))]) rows), g)"
proof (induction rows arbitrary: g)
  case Nil
  show ?case by simp
next
  case (Cons row rows)
  show ?case
    by (simp add: Cons.IH sample_one_def random_pick_def Let_def)
qed

lemma random_matches_product:
  assumes "m \<in> set (fst (random_matches np products rows g))"
  shows "rm_product_article m = article (random_pick np products (rm_store m))
     \<and> rm_product_name m = product_name (random_pick np products (rm_store m))
     \<and> rm_product_concept m = product_concept (random_pick np products (rm_store m))"
  using assms unfolding random_matches_seeded
  by (auto simp: make_match_def split: if_splits)

subsection \<open>C10: one product per store in the random baseline\<close>

text \<open>
  C10. In the random match table of Notebook 25, started in any state of the global
  generator, two rows of the same store carry the same product (article, name and concept),
  whatever their ingredients: every draw is seeded with 42 and taken from the catalog of the
  store.
\<close>

theorem random_matches_same_store_same_product:
  assumes "m1 \<in> set (fst (matching_matrix_random np recipes products store_recipes g))"
    and "m2 \<in> set (fst (matching_matrix_random np recipes products store_recipes g))"
    and "rm_store m1 = rm_store m2"
  shows "rm_product_article m1 = rm_product_article m2
     \<and> rm_product_name m1 = rm_product_name m2
     \<and> rm_product_concept m1 = rm_product_concept m2"
proof -
  let ?pick = "random_pick np (normalize_products products)"
  from assms(1) have a: "rm_product_article m1 = article (?pick (rm_store m1))
     \<and> rm_product_name m1 = product_name (?pick (rm_store m1))
     \<and> rm_product_concept m1 = product_concept (?pick (rm_store m1))"
    unfolding matching_matrix_random_def by (rule random_matches_product)
  from assms(2) have b: "rm_product_article m2 = article (?pick (rm_store m2))
     \<and> rm_product_name m2 = product_name (?pick (rm_store m2))
     \<and> rm_product_concept m2 = product_concept (?pick (rm_store m2))"
    unfolding matching_matrix_random_def by (rule random_matches_product)
  from a b assms(3) show ?thesis by simp
qed

text \<open>
  The theorem at the example: store 1024 has two products, the recipe two ingredients, and
  both ingredients get the honey.
\<close>

theorem random_matches_same_store_same_product_witness:
  "length (fst (matching_matrix_random ex_np ex_recipes
       (products_with_priority ex_products ex_waste ex_markdown) ex_store_recipes 0)) = 2
   \<and> rm_ingredient (fst (matching_matrix_random ex_np ex_recipes
       (products_with_priority ex_products ex_waste ex_markdown) ex_store_recipes 0) ! 0) = Some ''yogurt''
   \<and> rm_ingredient (fst (matching_matrix_random ex_np ex_recipes
       (products_with_priority ex_products ex_waste ex_markdown) ex_store_recipes 0) ! 1) = Some ''honey''
   \<and> rm_product_name (fst (matching_matrix_random ex_np ex_recipes
       (products_with_priority ex_products ex_waste ex_markdown) ex_store_recipes 0) ! 0) = ''bloemenhoning''
   \<and> rm_product_name (fst (matching_matrix_random ex_np ex_recipes
       (products_with_priority ex_products ex_waste ex_markdown) ex_store_recipes 0) ! 1) = ''bloemenhoning''"
proof -
  let ?ms = "fst (matching_matrix_random ex_np ex_recipes
       (products_with_priority ex_products ex_waste ex_markdown) ex_store_recipes 0)"
  have len: "length ?ms = 2" by code_simp
  have ingr: "rm_ingredient (?ms ! 0) = Some ''yogurt''" "rm_ingredient (?ms ! 1) = Some ''honey''"
    by code_simp+
  have stores: "rm_store (?ms ! 0) = rm_store (?ms ! 1)" by code_simp
  have first: "rm_product_name (?ms ! 0) = ''bloemenhoning''" by code_simp
  have mem: "?ms ! 0 \<in> set ?ms" "?ms ! 1 \<in> set ?ms"
    using len by simp_all
  from random_matches_same_store_same_product [OF mem stores] first
  have "rm_product_name (?ms ! 1) = ''bloemenhoning''" by simp
  with len ingr first show ?thesis by simp
qed

subsection \<open>C7: the random baseline is reproducible\<close>

text \<open>
  C7. Two runs of the random baseline (Notebook 25, then Notebook 26) over the same tables
  give the same match table and the same rows of (store, items, value), in whatever states
  \<open>g1\<close> and \<open>g2\<close> of the global generator the runs start: every draw is seeded with the
  constant 42. The two runs of Notebook 26 agree when it is run from top to bottom, where
  the outcome is the rows or the exception raised, and when its second cell is executed
  twice, as in the recorded run, where the outcome is the rows.
\<close>

theorem random_baseline_reproducible:
  "fst (matching_matrix_random np recipes products store_recipes g1)
     = fst (matching_matrix_random np recipes products store_recipes g2)
   \<and> random_baseline np recipes products store_recipes df_waste g1
     = random_baseline np recipes products store_recipes df_waste g2
   \<and> waste_impact_random_rerun (fst (matching_matrix_random np recipes products store_recipes g1))
        store_recipes recipes df_waste
     = waste_impact_random_rerun (fst (matching_matrix_random np recipes products store_recipes g2))
        store_recipes recipes df_waste"
proof -
  have "fst (matching_matrix_random np recipes products store_recipes g1)
     = fst (matching_matrix_random np recipes products store_recipes g2)"
    by (simp add: matching_matrix_random_def random_matches_seeded)
  then show ?thesis by (simp add: random_baseline_def)
qed

subsection \<open>Sums over groups, and the savings of Notebook 14\<close>

lemma sum_list_filter_disj:
  fixes f :: "'a \<Rightarrow> 'b::comm_monoid_add"
  assumes "\<forall>x \<in> set xs. \<not> (P x \<and> Q x)"
  shows "sum_list (map f (filter P xs)) + sum_list (map f (filter Q xs))
           = sum_list (map f (filter (\<lambda>x. P x \<or> Q x) xs))"
  using assms by (induction xs) (auto simp: ac_simps)

lemma sum_list_groups:
  fixes f :: "'a \<Rightarrow> 'b::comm_monoid_add"
  assumes "distinct ks"
  shows "sum_list (map (\<lambda>k. sum_list (map f (filter (\<lambda>x. key x = k) xs))) ks)
           = sum_list (map f (filter (\<lambda>x. key x \<in> set ks) xs))"
  using assms
proof (induction ks)
  case Nil
  show ?case by simp
next
  case (Cons k ks)
  then have k: "k \<notin> set ks" and IH: "sum_list (map (\<lambda>k. sum_list (map f (filter (\<lambda>x. key x = k) xs))) ks)
           = sum_list (map f (filter (\<lambda>x. key x \<in> set ks) xs))"
    by simp_all
  have "sum_list (map f (filter (\<lambda>x. key x = k) xs)) + sum_list (map f (filter (\<lambda>x. key x \<in> set ks) xs))
      = sum_list (map f (filter (\<lambda>x. key x = k \<or> key x \<in> set ks) xs))"
    by (rule sum_list_filter_disj) (use k in auto)
  with IH show ?case by simp
qed

lemma sum_list_filter_le:
  fixes f :: "'a \<Rightarrow> 'b::ordered_comm_monoid_add"
  assumes "\<forall>x \<in> set xs. 0 \<le> f x"
  shows "sum_list (map f (filter P xs)) \<le> sum_list (map f xs)"
  using assms
proof (induction xs)
  case Nil
  show ?case by simp
next
  case (Cons x xs)
  then have IH: "sum_list (map f (filter P xs)) \<le> sum_list (map f xs)" and x: "0 \<le> f x"
    by simp_all
  show ?case
  proof (cases "P x")
    case True
    with IH show ?thesis by (simp add: add_left_mono)
  next
    case False
    from add_mono [OF x IH] False show ?thesis by simp
  qed
qed

lemma groupby_keys_distinct: "distinct (groupby_keys key rows)"
  by (simp add: groupby_keys_def)

lemma savings_group_fields:
  "sv_store (savings_group rows k) = fst k"
  "items_saved (savings_group rows k) = sum_list (map ws_items_wasted (filter (\<lambda>w. (ws_store w, ws_concept w) = k) rows))"
  "value_saved (savings_group rows k) = sum_list (map ws_value_wasted (filter (\<lambda>w. (ws_store w, ws_concept w) = k) rows))"
  by (simp_all add: savings_group_def)

lemma savings_store_sum:
  fixes f :: "waste_str_row \<Rightarrow> 'b::comm_monoid_add"
  shows "sum_list (map (\<lambda>k. sum_list (map f (filter (\<lambda>w. (ws_store w, ws_concept w) = k) rows)))
      (filter (\<lambda>k. fst k = s) (groupby_keys (\<lambda>w. (ws_store w, ws_concept w)) rows)))
    = sum_list (map f (filter (\<lambda>w. ws_store w = s) rows))"
proof -
  let ?key = "\<lambda>w. (ws_store w, ws_concept w)"
  let ?ks = "filter (\<lambda>k. fst k = s) (groupby_keys ?key rows)"
  have "distinct ?ks" by (simp add: groupby_keys_distinct)
  then have "sum_list (map (\<lambda>k. sum_list (map f (filter (\<lambda>w. ?key w = k) rows))) ?ks)
      = sum_list (map f (filter (\<lambda>w. ?key w \<in> set ?ks) rows))"
    by (rule sum_list_groups)
  also have "filter (\<lambda>w. ?key w \<in> set ?ks) rows = filter (\<lambda>w. ws_store w = s) rows"
    by (rule filter_cong) (auto simp: set_groupby_keys)
  finally show ?thesis .
qed

lemma df_totals_sums:
  assumes "t \<in> set (df_totals df_ranked df_waste)"
  shows "total_items_saved t
       = sum_list (map ws_items_wasted (filter (\<lambda>w. ws_store w = t_store t) (df_covered df_ranked df_waste)))
    \<and> total_value_saved t
       = sum_list (map ws_value_wasted (filter (\<lambda>w. ws_store w = t_store t) (df_covered df_ranked df_waste)))"
proof -
  let ?rows = "df_covered df_ranked df_waste"
  let ?key = "\<lambda>w. (ws_store w, ws_concept w)"
  let ?s = "t_store t"
  have flt: "filter (\<lambda>v. sv_store v = ?s) (df_savings df_ranked df_waste)
      = map (savings_group ?rows) (filter (\<lambda>k. fst k = ?s) (groupby_keys ?key ?rows))"
    by (simp add: df_savings_def filter_map o_def savings_group_fields)
  from assms have "total_items_saved t
      = sum_list (map items_saved (filter (\<lambda>v. sv_store v = ?s) (df_savings df_ranked df_waste)))"
    and "total_value_saved t
      = sum_list (map value_saved (filter (\<lambda>v. sv_store v = ?s) (df_savings df_ranked df_waste)))"
    by (auto simp: df_totals_def Let_def)
  then show ?thesis
    unfolding flt by (simp add: o_def savings_group_fields savings_store_sum)
qed

lemma normalize_waste_store_sums:
  "sum_list (map ws_items_wasted (filter (\<lambda>w. ws_store w = s) (normalize_waste df_waste)))
     = fst (store_waste_totals df_waste s)"
  "sum_list (map ws_value_wasted (filter (\<lambda>w. ws_store w = s) (normalize_waste df_waste)))
     = snd (store_waste_totals df_waste s)"
  by (simp_all add: normalize_waste_def store_waste_totals_def filter_map o_def)

text \<open>
  The simulator of Notebook 14 counts every waste row at most once: where no recorded
  quantity is negative, its totals per store stay within what the snapshot records for
  the store.
\<close>

lemma simulated_savings_bounded:
  assumes nonneg: "\<forall>w \<in> set df_waste. 0 \<le> items_wasted w \<and> 0 \<le> value_wasted w"
    and t: "t \<in> set (df_totals df_ranked df_waste)"
  shows "total_items_saved t \<le> fst (store_waste_totals df_waste (t_store t))
    \<and> total_value_saved t \<le> snd (store_waste_totals df_waste (t_store t))"
proof -
  let ?s = "t_store t"
  let ?N = "filter (\<lambda>w. ws_store w = ?s) (normalize_waste df_waste)"
  have cov: "filter (\<lambda>w. ws_store w = ?s) (df_covered df_ranked df_waste) = filter (covered df_ranked) ?N"
    unfolding df_covered_def by (simp add: conj_commute)
  have nn: "\<forall>w \<in> set ?N. 0 \<le> ws_items_wasted w" "\<forall>w \<in> set ?N. 0 \<le> ws_value_wasted w"
    using nonneg by (auto simp: normalize_waste_def)
  have "sum_list (map ws_items_wasted (filter (covered df_ranked) ?N)) \<le> sum_list (map ws_items_wasted ?N)"
    using nn(1) by (rule sum_list_filter_le)
  moreover have "sum_list (map ws_value_wasted (filter (covered df_ranked) ?N)) \<le> sum_list (map ws_value_wasted ?N)"
    using nn(2) by (rule sum_list_filter_le)
  ultimately show ?thesis
    using df_totals_sums [OF t] unfolding cov normalize_waste_store_sums by simp
qed

subsection \<open>C3: savings against the snapshot totals\<close>

lemma nth_mod_two: "P (xs ! 0) \<Longrightarrow> P (xs ! 1) \<Longrightarrow> P (xs ! (k mod 2))"
proof -
  assume a: "P (xs ! 0)" and b: "P (xs ! 1)"
  have "k mod 2 = 0 \<or> k mod 2 = 1" by auto
  with a b show ?thesis by auto
qed

lemma ex_pick_yogurt:
  "product_concept (random_pick np
      (normalize_products (products_with_priority ex_yogurts W M)) 1024) = Some ''yogurt''"
proof -
  let ?av = "filter (\<lambda>p. store p = 1024) (normalize_products (products_with_priority ex_yogurts W M))"
  have len: "length ?av = 2"
    by (simp add: normalize_products_def products_with_priority_def ex_yogurts_def priority_scorer_fields)
  have c0: "product_concept (?av ! 0) = Some ''yogurt''"
    by (simp add: normalize_products_def products_with_priority_def ex_yogurts_def priority_scorer_fields
        normalize_opt_def str_lower_def str_strip_def is_space_def lower_char_def)
  have c1: "product_concept (?av ! 1) = Some ''yogurt''"
    by (simp add: normalize_products_def products_with_priority_def ex_yogurts_def priority_scorer_fields
        normalize_opt_def str_lower_def str_strip_def is_space_def lower_char_def)
  have "product_concept (?av ! (seeded_choice np 42 2 mod 2)) = Some ''yogurt''"
    using c0 c1 by (rule nth_mod_two)
  then show ?thesis by (simp add: random_pick_def Let_def len)
qed

lemma ex_available:
  "filter (\<lambda>p. store p = 1024) (normalize_products (products_with_priority ex_yogurts W M)) \<noteq> []"
  by (simp add: normalize_products_def products_with_priority_def ex_yogurts_def priority_scorer_fields)

lemma ex_store_ingredients: "store_ingredients ex_store_recipes ex_recipes =
      [\<lparr>si_store = 1024, si_recipe = ''Greek Yogurt & Honey'', si_row_id = Some 0, si_ingredient = Some ''yogurt''\<rparr>,
       \<lparr>si_store = 1024, si_recipe = ''Greek Yogurt & Honey'', si_row_id = Some 1, si_ingredient = Some ''honey''\<rparr>]"
    by (simp add: store_ingredients_def ex_store_recipes_def ex_recipes_def str_lower_def str_strip_def
        is_space_def lower_char_def)

lemma ex_random_matches: "fst (matching_matrix_random np ex_recipes (products_with_priority ex_yogurts ex_waste_1024 []) ex_store_recipes g) =
      [make_match \<lparr>si_store = 1024, si_recipe = ''Greek Yogurt & Honey'', si_row_id = Some 0, si_ingredient = Some ''yogurt''\<rparr>
         (random_pick np (normalize_products (products_with_priority ex_yogurts ex_waste_1024 [])) 1024),
       make_match \<lparr>si_store = 1024, si_recipe = ''Greek Yogurt & Honey'', si_row_id = Some 1, si_ingredient = Some ''honey''\<rparr>
         (random_pick np (normalize_products (products_with_priority ex_yogurts ex_waste_1024 [])) 1024)]"
    by (simp add: matching_matrix_random_def random_matches_seeded ex_store_ingredients ex_available)


lemma ex_random_baseline_raises:
  "random_baseline np ex_recipes (products_with_priority ex_yogurts ex_waste_1024 []) ex_store_recipes
     ex_waste_1024 g = Inl AssertionError"
  unfolding random_baseline_def ex_random_matches
  by (simp add: df_random_to_csv_def waste_impact_random_def restore_recipe_def)

lemma ex_random_impact_rerun:
  "waste_impact_random_rerun (fst (matching_matrix_random np ex_recipes
       (products_with_priority ex_yogurts ex_waste_1024 []) ex_store_recipes g))
     ex_store_recipes ex_recipes ex_waste_1024
   = [\<lparr>i_store = 1024, i_items_wasted = 12, i_value_wasted = 1188 / 100\<rparr>]"
  unfolding ex_random_matches
  by (simp add: make_match_def ex_pick_yogurt
        ex_recipes_def ex_waste_1024_def ex_store_recipes_def
        str_lower_def str_strip_def is_space_def lower_char_def
        waste_impact_random_rerun_def restore_recipe_rerun_def simulate_impact_def
        normalize_matches_def normalize_recipes_def left_merge_recipe_def
        normalize_str_def astype_str_def
        df_deployed_def deployable_pairs_def unique_def normalize_waste_def df_simulated_def df_impact_def
        groupby_keys_def Let_def)

lemma ex_seven_columns_impact:
  "waste_impact_random (Seven_columns ex_match_rows) ex_store_recipes ex_recipes ex_waste_1024
   = Inr [\<lparr>i_store = 1024, i_items_wasted = 12, i_value_wasted = 1188 / 100\<rparr>]"
  by (simp add: ex_match_rows_def
        ex_recipes_def ex_waste_1024_def ex_store_recipes_def
        str_lower_def str_strip_def is_space_def lower_char_def
        waste_impact_random_def restore_recipe_def simulate_impact_def
        normalize_matches_def normalize_recipes_def left_merge_recipe_def
        normalize_str_def astype_str_def match_row.extend_def
        df_deployed_def deployable_pairs_def unique_def normalize_waste_def df_simulated_def df_impact_def
        groupby_keys_def Let_def)

text \<open>
  C3 (evaluation of the code at a failing input). Notebook 26 reads a match table of store
  1024 with two rows, the two ingredients of the ranked recipe, both matched with a product
  of the concept ``yogurt''. On the table with seven columns the notebook runs from top to
  bottom: the inner merge pairs the yogurt waste row of the store with each of the two
  deployed rows, and the sum per store counts its 6 items twice: 12 items and 11.88 of
  value, where the snapshot records 8 items and 8.24 for the store.

  Notebook 25 writes such a table with eight columns when store 1024 sells two yogurts,
  whichever the generator draws. On that file the run from top to bottom stops at the
  \<open>assert\<close> of the second cell and reports nothing; with the second cell executed twice, as
  in the recorded run, the notebook reports the same 12 items and 11.88.
\<close>

theorem waste_impact_random_exceeds_snapshot:
  "waste_impact_random (Seven_columns ex_match_rows) ex_store_recipes ex_recipes ex_waste_1024
     = Inr [\<lparr>i_store = 1024, i_items_wasted = 12, i_value_wasted = 1188 / 100\<rparr>]
   \<and> store_waste_totals ex_waste_1024 1024 = (8, 824 / 100)
   \<and> map rm_product_concept (fst (matching_matrix_random np ex_recipes
       (products_with_priority ex_yogurts ex_waste_1024 []) ex_store_recipes g))
     = [Some ''yogurt'', Some ''yogurt'']
   \<and> random_baseline np ex_recipes (products_with_priority ex_yogurts ex_waste_1024 [])
       ex_store_recipes ex_waste_1024 g
     = Inl AssertionError
   \<and> waste_impact_random_rerun (fst (matching_matrix_random np ex_recipes
         (products_with_priority ex_yogurts ex_waste_1024 []) ex_store_recipes g))
       ex_store_recipes ex_recipes ex_waste_1024
     = [\<lparr>i_store = 1024, i_items_wasted = 12, i_value_wasted = 1188 / 100\<rparr>]"
proof -
  have concepts: "map rm_product_concept (fst (matching_matrix_random np ex_recipes
       (products_with_priority ex_yogurts ex_waste_1024 []) ex_store_recipes g))
     = [Some ''yogurt'', Some ''yogurt'']"
    unfolding ex_random_matches by (simp add: make_match_def ex_pick_yogurt)
  have totals: "store_waste_totals ex_waste_1024 1024 = (8, 824 / 100)"
    by (simp add: store_waste_totals_def ex_waste_1024_def)
  from ex_seven_columns_impact totals concepts ex_random_baseline_raises [of np g]
    ex_random_impact_rerun [of np g]
  show ?thesis by blast
qed

subsection \<open>C9: malformed embeddings\<close>

lemma try_except_returns: "\<exists>v. try_except body handler = Inr v"
  by (cases body) (simp_all add: try_except_def)

lemma map_float_fails_iff:
  "(\<exists>e. map_float py_float ts = Inl e) \<longleftrightarrow> (\<exists>t \<in> set ts. py_float t = None)"
  by (induction ts) (auto split: option.splits sum.splits)

lemma map_float_error: "map_float py_float ts = Inl e \<Longrightarrow> e = ValueError"
  by (induction ts) (auto split: option.splits sum.splits)

lemma fix_embedding_string_returns: "\<exists>v. fix_embedding_string py_float cell = Inr v"
proof (cases cell)
  case None
  then show ?thesis by (simp add: fix_embedding_string_def)
next
  case (Some s)
  obtain v where "try_except (parse_embedding py_float s) (replicate 384 0) = Inr v"
    using try_except_returns [of "parse_embedding py_float s" "replicate 384 0"] by blast
  with Some show ?thesis by (simp add: fix_embedding_string_def)
qed

lemma fix_embedding_string_malformed:
  assumes "\<exists>t \<in> set (embedding_tokens s). py_float t = None"
  shows "fix_embedding_string py_float (Some s) = Inr (Some (replicate 384 0))"
proof -
  from assms obtain e where "parse_embedding py_float s = Inl e"
    unfolding parse_embedding_def using map_float_fails_iff [of py_float "embedding_tokens s"] by blast
  then show ?thesis by (simp add: fix_embedding_string_def try_except_def)
qed

lemma apply_rows_total:
  assumes "\<forall>r \<in> set rows. \<exists>v. f r = Inr v"
  shows "\<exists>out. apply_rows f rows = Inr out \<and> length out = length rows
           \<and> (\<forall>i < length rows. f (rows ! i) = Inr (out ! i))"
  using assms
proof (induction rows)
  case Nil
  then show ?case by simp
next
  case (Cons r rs)
  from Cons.prems obtain v where v: "f r = Inr v" by auto
  from Cons obtain out where out: "apply_rows f rs = Inr out" "length out = length rs"
    "\<forall>i < length rs. f (rs ! i) = Inr (out ! i)" by auto
  have "\<forall>i < length (r # rs). f ((r # rs) ! i) = Inr ((v # out) ! i)"
    using v out(3) by (auto simp: nth_Cons split: nat.splits)
  with v out(1,2) show ?case by simp
qed

lemma compute_semantic_similarity_returns:
  "\<exists>v. compute_semantic_similarity py_eval cosine row = Inr v"
  unfolding compute_semantic_similarity_def by (rule try_except_returns)

lemma compute_semantic_similarity_malformed:
  assumes "(\<exists>e. py_eval (ingredient_embedding row) = Inl e) \<or> (\<exists>e. py_eval (product_embedding row) = Inl e)"
  shows "compute_semantic_similarity py_eval cosine row = Inr None"
proof -
  from assms have "\<exists>e. similarity_body py_eval cosine row = Inl e"
    by (auto simp: similarity_body_def split: sum.splits)
  then show ?thesis by (auto simp: compute_semantic_similarity_def try_except_def)
qed

lemma add_semantic_score_total:
  "\<exists>out. add_semantic_score py_eval cosine rows = Inr out \<and> length out = length rows
     \<and> (\<forall>i < length rows.
           (\<exists>e. py_eval (ingredient_embedding (rows ! i)) = Inl e)
             \<or> (\<exists>e. py_eval (product_embedding (rows ! i)) = Inl e)
           \<longrightarrow> semantic_score (out ! i) = 0)"
proof -
  let ?f = "\<lambda>row. (case compute_semantic_similarity py_eval cosine row of
          Inl e \<Rightarrow> Inl e | Inr sim \<Rightarrow> Inr (scored_row row sim))"
  have "\<exists>v. ?f r = Inr v" for r
  proof -
    obtain sim where "compute_semantic_similarity py_eval cosine r = Inr sim"
      using compute_semantic_similarity_returns [of py_eval cosine r] by blast
    then show ?thesis by simp
  qed
  then have "\<forall>r \<in> set rows. \<exists>v. ?f r = Inr v" by blast
  from apply_rows_total [OF this] obtain out where out: "apply_rows ?f rows = Inr out"
    "length out = length rows" "\<forall>i < length rows. ?f (rows ! i) = Inr (out ! i)"
    by blast
  have "semantic_score (out ! i) = 0"
    if "i < length rows" and bad: "(\<exists>e. py_eval (ingredient_embedding (rows ! i)) = Inl e)
             \<or> (\<exists>e. py_eval (product_embedding (rows ! i)) = Inl e)" for i
  proof -
    from compute_semantic_similarity_malformed [OF bad]
    have "?f (rows ! i) = Inr (scored_row (rows ! i) None)" by simp
    with out(3) that(1) have "out ! i = scored_row (rows ! i) None" by auto
    then show ?thesis by (simp add: scored_row_def fillna0_def)
  qed
  with out(1,2) show ?thesis by (auto simp: add_semantic_score_def)
qed

text \<open>
  C9. The embedding parser never raises, and for a serialized vector with a token that
  \<open>float\<close> rejects it returns the zero vector of length 384. The semantic scoring of a batch
  never raises either, returns one row per input row, and gives semantic score 0 to every
  row one of whose embeddings \<open>eval\<close> rejects.
\<close>

theorem malformed_embedding_degrades:
  "(\<exists>v. fix_embedding_string py_float cell = Inr v)
   \<and> ((\<exists>t \<in> set (embedding_tokens s). py_float t = None)
        \<longrightarrow> fix_embedding_string py_float (Some s) = Inr (Some (replicate 384 0)))
   \<and> (\<exists>out. add_semantic_score py_eval cosine rows = Inr out \<and> length out = length rows
        \<and> (\<forall>i < length rows.
              (\<exists>e. py_eval (ingredient_embedding (rows ! i)) = Inl e)
                \<or> (\<exists>e. py_eval (product_embedding (rows ! i)) = Inl e)
              \<longrightarrow> semantic_score (out ! i) = 0))"
  using fix_embedding_string_returns [of py_float cell]
    fix_embedding_string_malformed [of s py_float]
    add_semantic_score_total [of py_eval cosine rows]
  by blast

text \<open>
  The theorem at the example: a token ``abc'', and a product embedding without commas.
\<close>

theorem malformed_embedding_degrades_witness:
  "ex_float ''abc'' = None
   \<and> embedding_tokens ''[0.5  abc]'' = [''0.5'', ''abc'']
   \<and> fix_embedding_string ex_float (Some ''[0.5  abc]'') = Inr (Some (replicate 384 0))
   \<and> ex_eval (product_embedding (ex_embedded ! 0)) = Inl SyntaxError
   \<and> map semantic_score (projr (add_semantic_score ex_eval ex_cosine ex_embedded)) = [0]"
proof -
  have tok: "embedding_tokens ''[0.5  abc]'' = [''0.5'', ''abc'']" by code_simp
  have bad: "ex_float ''abc'' = None" by (simp add: ex_float_def)
  have mal: "\<exists>t \<in> set (embedding_tokens ''[0.5  abc]''). ex_float t = None"
    unfolding tok using bad by simp
  have ev: "ex_eval (product_embedding (ex_embedded ! 0)) = Inl SyntaxError"
    by (simp add: ex_eval_def ex_embedded_def)
  note inst = malformed_embedding_degrades [of ex_float None "''[0.5  abc]''" ex_eval ex_cosine ex_embedded]
  from inst mal have a: "fix_embedding_string ex_float (Some ''[0.5  abc]'') = Inr (Some (replicate 384 0))"
    by blast
  from inst obtain out where out: "add_semantic_score ex_eval ex_cosine ex_embedded = Inr out"
    "length out = length ex_embedded"
    "\<forall>i < length ex_embedded.
              (\<exists>e. ex_eval (ingredient_embedding (ex_embedded ! i)) = Inl e)
                \<or> (\<exists>e. ex_eval (product_embedding (ex_embedded ! i)) = Inl e)
              \<longrightarrow> semantic_score (out ! i) = 0"
    by blast
  have len: "length ex_embedded = 1" by (simp add: ex_embedded_def)
  from out(3) ev len have "semantic_score (out ! 0) = 0" by auto
  moreover from out(2) len obtain x where "out = [x]" by (cases out) auto
  ultimately have "map semantic_score out = [0]" by simp
  with out(1) have b: "map semantic_score (projr (add_semantic_score ex_eval ex_cosine ex_embedded)) = [0]"
    by simp
  from bad tok a ev b show ?thesis by blast
qed

subsection \<open>C5: exact concept matches in the candidate tables\<close>

lemma rint_of_int: "rint (of_int n) = n"
  by (simp add: rint_def)

lemma round2_of_int: "round2 (of_int k) = of_int k"
proof -
  have "of_int k * 100 = (of_int (k * 100) :: real)" by simp
  then have "rint (of_int k * 100) = k * 100" by (simp only: rint_of_int)
  then show ?thesis by (simp add: round2_def)
qed

lemma set_df_store_products:
  "set (df_store_products df_products) = {p \<in> set df_products. product_concept p \<noteq> None}"
  by (auto simp: df_store_products_def unique_def)

lemma exact_concept_in_matrix:
  assumes one: "ratio (str_lower (str_strip c)) (str_lower (str_strip c)) = 1"
    and r: "r \<in> set df_recipes" "r_ingredient_concept r = Some c"
    and p: "p \<in> set df_products" "product_concept p = Some (str_lower (str_strip c))"
  shows "\<lparr>fm_row_id = r_row_id r, fm_recipe = r_recipe r, fm_ingredient = str_lower (str_strip c),
          fm_store = store p, fm_product_article = article p, fm_product_name = product_name p,
          fm_product_concept = str_lower (str_strip c), fm_fuzzy_score = 100\<rparr>
         \<in> set (matching_matrix_fuzzy ratio df_recipes df_products)"
proof -
  let ?c = "str_lower (str_strip c)"
  let ?m = "\<lparr>fm_row_id = r_row_id r, fm_recipe = r_recipe r, fm_ingredient = ?c,
          fm_store = store p, fm_product_article = article p, fm_product_name = product_name p,
          fm_product_concept = ?c, fm_fuzzy_score = 100\<rparr>"
  have "round2 (1 * 100) = 100" using round2_of_int [of 100] by simp
  then have "product_matches ratio r ?c p = [?m]"
    using one p(2) by (simp add: product_matches_def)
  moreover have "p \<in> set (df_store_products df_products)"
    using p by (simp add: set_df_store_products)
  ultimately have "?m \<in> set (recipe_matches ratio (df_store_products df_products) r)"
    using r(2) by (force simp: recipe_matches_def)
  with r(1) show ?thesis by (force simp: matching_matrix_fuzzy_def)
qed

lemma drop_duplicates_first:
  assumes "sorted_wrt R xs" and "x \<in> set (drop_duplicates key seen xs)"
  shows "x \<in> set xs \<and> key x \<notin> set seen \<and> (\<forall>m \<in> set xs. key m = key x \<longrightarrow> m = x \<or> R x m)"
  using assms
proof (induction xs arbitrary: seen)
  case Nil
  then show ?case by simp
next
  case (Cons y ys)
  from Cons.prems(1) have sorted: "sorted_wrt R ys" and first: "\<forall>m \<in> set ys. R y m" by simp_all
  show ?case
  proof (cases "key y \<in> set seen")
    case True
    with Cons.prems(2) have "x \<in> set (drop_duplicates key seen ys)" by simp
    from Cons.IH [OF sorted this] True show ?thesis by auto
  next
    case False
    with Cons.prems(2) have "x = y \<or> x \<in> set (drop_duplicates key (key y # seen) ys)" by simp
    then show ?thesis
    proof
      assume "x = y"
      with False first show ?thesis by auto
    next
      assume "x \<in> set (drop_duplicates key (key y # seen) ys)"
      from Cons.IH [OF sorted this] show ?thesis by auto
    qed
  qed
qed

lemma drop_duplicates_distinct:
  "distinct (map key (drop_duplicates key seen xs))
   \<and> (\<forall>x \<in> set (drop_duplicates key seen xs). key x \<notin> set seen)"
proof (induction xs arbitrary: seen)
  case Nil
  show ?case by simp
next
  case (Cons y ys)
  show ?case
  proof (cases "key y \<in> set seen")
    case True
    with Cons.IH [of seen] show ?thesis by simp
  next
    case False
    with Cons.IH [of "key y # seen"] show ?thesis by auto
  qed
qed

lemma drop_duplicates_complete:
  assumes "x \<in> set xs" and "key x \<notin> set seen"
  shows "\<exists>t \<in> set (drop_duplicates key seen xs). key t = key x"
  using assms
proof (induction xs arbitrary: seen)
  case Nil
  then show ?case by simp
next
  case (Cons y ys)
  show ?case
  proof (cases "key y \<in> set seen")
    case True
    with Cons.prems have "x \<in> set ys" by auto
    from Cons.IH [OF this Cons.prems(2)] True show ?thesis by simp
  next
    case False
    show ?thesis
    proof (cases "key x = key y")
      case True
      with False show ?thesis by simp
    next
      case neq: False
      with Cons.prems have "x \<in> set ys" and "key x \<notin> set (key y # seen)" by auto
      from Cons.IH [OF this] False show ?thesis by auto
    qed
  qed
qed

lemma score_candidates_fields:
  "c_row_id (candidate.extend row \<lparr>c_fuzzy_score = n\<rparr>) = c_row_id row"
  "c_store (candidate.extend row \<lparr>c_fuzzy_score = n\<rparr>) = c_store row"
  "c_fuzzy_score (candidate.extend row \<lparr>c_fuzzy_score = n\<rparr>) = n"
  by (simp_all add: candidate.extend_def)

lemma df_top_best:
  assumes sv: "descending sv (df_filtered (score_candidates tsr df_matches))"
    and t: "t \<in> set (df_top sv tsr df_matches)"
  shows "threshold \<le> c_fuzzy_score t
    \<and> t \<in> set (score_candidates tsr df_matches)
    \<and> (\<forall>m \<in> set df_matches. c_row_id m = c_row_id t \<and> c_store m = c_store t
          \<longrightarrow> compute_fuzzy_score tsr m \<le> c_fuzzy_score t)"
proof -
  let ?F = "df_filtered (score_candidates tsr df_matches)"
  let ?L = "sv ?F"
  let ?key = "\<lambda>m. (c_row_id m, c_store m)"
  from sv have sorted: "sorted_wrt (\<lambda>a b. c_fuzzy_score b \<le> c_fuzzy_score a) ?L"
    and same: "set ?L = set ?F"
    by (simp_all add: descending_def)
  from t have "t \<in> set (drop_duplicates ?key [] ?L)" by (simp add: df_top_def)
  from drop_duplicates_first [OF sorted this]
  have t: "t \<in> set ?F"
    and best: "\<forall>m \<in> set ?F. ?key m = ?key t \<longrightarrow> m = t \<or> c_fuzzy_score m \<le> c_fuzzy_score t"
    unfolding same by simp_all
  from t have thr: "threshold \<le> c_fuzzy_score t" and mem: "t \<in> set (score_candidates tsr df_matches)"
    by (simp_all add: df_filtered_def)
  have "compute_fuzzy_score tsr m \<le> c_fuzzy_score t"
    if m: "m \<in> set df_matches" and key: "c_row_id m = c_row_id t \<and> c_store m = c_store t" for m
  proof (cases "threshold \<le> compute_fuzzy_score tsr m")
    case True
    let ?m = "candidate.extend m \<lparr>c_fuzzy_score = compute_fuzzy_score tsr m\<rparr>"
    from m True have "?m \<in> set ?F"
      by (simp add: df_filtered_def score_candidates_def score_candidates_fields)
    moreover have "?key ?m = ?key t" using key by (simp add: score_candidates_fields)
    ultimately have "?m = t \<or> c_fuzzy_score ?m \<le> c_fuzzy_score t" using best by blast
    then show ?thesis by (auto simp: score_candidates_fields)
  next
    case False
    with thr show ?thesis by simp
  qed
  with thr mem show ?thesis by blast
qed

lemma df_top_complete:
  assumes sv: "descending sv (df_filtered (score_candidates tsr df_matches))"
    and m: "m \<in> set df_matches" and thr: "threshold \<le> compute_fuzzy_score tsr m"
  shows "\<exists>t \<in> set (df_top sv tsr df_matches). c_row_id t = c_row_id m \<and> c_store t = c_store m"
proof -
  let ?F = "df_filtered (score_candidates tsr df_matches)"
  let ?L = "sv ?F"
  let ?key = "\<lambda>m. (c_row_id m, c_store m)"
  let ?m = "candidate.extend m \<lparr>c_fuzzy_score = compute_fuzzy_score tsr m\<rparr>"
  from m thr have "?m \<in> set ?F"
    by (simp add: df_filtered_def score_candidates_def score_candidates_fields)
  with sv have "?m \<in> set ?L" by (simp add: descending_def)
  from drop_duplicates_complete [of ?m ?L ?key "[]", OF this]
  obtain t where "t \<in> set (drop_duplicates ?key [] ?L)" and "?key t = ?key ?m" by auto
  then show ?thesis by (auto simp: df_top_def score_candidates_fields)
qed

lemma ex_sort_values_descending: "descending ex_sort_values rows"
proof -
  have "sorted (map (\<lambda>m. - int (c_fuzzy_score m)) (ex_sort_values rows))"
    by (simp add: ex_sort_values_def)
  then have "sorted_wrt (\<lambda>a b. c_fuzzy_score b \<le> c_fuzzy_score a) (ex_sort_values rows)"
    by (simp add: sorted_map sorted_wrt_iff_nth_less)
  then show ?thesis by (simp add: descending_def ex_sort_values_def)
qed

text \<open>
  C5 as stated fails in the scoring stage of Notebook 19: the score compares names, so a
  candidate whose concept equals the concept of the ingredient scores what its name scores.
  Of the two yogurt products of the example one scores 71 and is kept with that score, the
  other scores 11 and is dropped.
\<close>

theorem exact_concept_match_dropped:
  "map c_product_concept ex_candidates = [Some ''yogurt'', Some ''yogurt'']
   \<and> map c_fuzzy_score (score_candidates ex_token_set_ratio ex_candidates) = [11, 71]
   \<and> map c_product_name (df_top ex_sort_values ex_token_set_ratio ex_candidates) = [Some ''roeryoghurt'']
   \<and> map c_fuzzy_score (df_top ex_sort_values ex_token_set_ratio ex_candidates) = [71]"
  by code_simp

text \<open>
  C5, amended. In the fuzzy matrix of Notebook 22 a product whose concept equals the
  stripped, lower-cased concept of an ingredient is listed for that ingredient with
  \<open>fuzzy_score\<close> 100 (difflib gives identical strings the ratio 1). The table kept by
  Notebook 19 has exactly one row for every recipe row and store that have a candidate whose
  names score at least 60, and no row for the others; the score of that row is
  \<open>token_set_ratio\<close> of the two names, is at least 60, and is the highest among the
  candidates of that recipe row and store, whatever their concepts and in whatever order
  the sort leaves the rows of equal score.
\<close>

theorem exact_match_in_matrix_best_name_in_top:
  assumes "descending sort_values (df_filtered (score_candidates token_set_ratio df_matches))"
  shows "(ratio (str_lower (str_strip c)) (str_lower (str_strip c)) = 1
      \<and> r \<in> set df_recipes \<and> r_ingredient_concept r = Some c
      \<and> p \<in> set df_products \<and> product_concept p = Some (str_lower (str_strip c))
    \<longrightarrow> \<lparr>fm_row_id = r_row_id r, fm_recipe = r_recipe r, fm_ingredient = str_lower (str_strip c),
          fm_store = store p, fm_product_article = article p, fm_product_name = product_name p,
          fm_product_concept = str_lower (str_strip c), fm_fuzzy_score = 100\<rparr>
         \<in> set (matching_matrix_fuzzy ratio df_recipes df_products))
   \<and> (\<forall>t \<in> set (df_top sort_values token_set_ratio df_matches).
          threshold \<le> c_fuzzy_score t
        \<and> t \<in> set (score_candidates token_set_ratio df_matches)
        \<and> (\<forall>m \<in> set df_matches. c_row_id m = c_row_id t \<and> c_store m = c_store t
              \<longrightarrow> compute_fuzzy_score token_set_ratio m \<le> c_fuzzy_score t))
   \<and> (\<forall>m \<in> set df_matches. threshold \<le> compute_fuzzy_score token_set_ratio m
          \<longrightarrow> (\<exists>t \<in> set (df_top sort_values token_set_ratio df_matches).
                 c_row_id t = c_row_id m \<and> c_store t = c_store m))
   \<and> distinct (map (\<lambda>t. (c_row_id t, c_store t)) (df_top sort_values token_set_ratio df_matches))"
proof (intro conjI)
  show "ratio (str_lower (str_strip c)) (str_lower (str_strip c)) = 1
      \<and> r \<in> set df_recipes \<and> r_ingredient_concept r = Some c
      \<and> p \<in> set df_products \<and> product_concept p = Some (str_lower (str_strip c))
    \<longrightarrow> \<lparr>fm_row_id = r_row_id r, fm_recipe = r_recipe r, fm_ingredient = str_lower (str_strip c),
          fm_store = store p, fm_product_article = article p, fm_product_name = product_name p,
          fm_product_concept = str_lower (str_strip c), fm_fuzzy_score = 100\<rparr>
         \<in> set (matching_matrix_fuzzy ratio df_recipes df_products)"
    using exact_concept_in_matrix [of ratio c r df_recipes p df_products] by blast
  show "\<forall>t \<in> set (df_top sort_values token_set_ratio df_matches).
          threshold \<le> c_fuzzy_score t
        \<and> t \<in> set (score_candidates token_set_ratio df_matches)
        \<and> (\<forall>m \<in> set df_matches. c_row_id m = c_row_id t \<and> c_store m = c_store t
              \<longrightarrow> compute_fuzzy_score token_set_ratio m \<le> c_fuzzy_score t)"
    using df_top_best [OF assms] by blast
  show "\<forall>m \<in> set df_matches. threshold \<le> compute_fuzzy_score token_set_ratio m
          \<longrightarrow> (\<exists>t \<in> set (df_top sort_values token_set_ratio df_matches).
                 c_row_id t = c_row_id m \<and> c_store t = c_store m)"
    using df_top_complete [OF assms] by blast
  show "distinct (map (\<lambda>t. (c_row_id t, c_store t)) (df_top sort_values token_set_ratio df_matches))"
    unfolding df_top_def using drop_duplicates_distinct by blast
qed

text \<open>
  The theorem at the example tables.
\<close>

theorem exact_match_in_matrix_best_name_in_top_witness:
  "descending ex_sort_values (df_filtered (score_candidates ex_token_set_ratio ex_candidates))
   \<and> \<lparr>fm_row_id = 0, fm_recipe = ''Greek Yogurt & Honey'', fm_ingredient = ''yogurt'',
     fm_store = 1024, fm_product_article = 11, fm_product_name = ''volle yoghurt'',
     fm_product_concept = ''yogurt'', fm_fuzzy_score = 100\<rparr>
       \<in> set (matching_matrix_fuzzy ex_ratio ex_recipes ex_products)
   \<and> hd (df_top ex_sort_values ex_token_set_ratio ex_candidates)
       \<in> set (df_top ex_sort_values ex_token_set_ratio ex_candidates)
   \<and> threshold \<le> c_fuzzy_score (hd (df_top ex_sort_values ex_token_set_ratio ex_candidates))
   \<and> compute_fuzzy_score ex_token_set_ratio (ex_candidates ! 0)
        \<le> c_fuzzy_score (hd (df_top ex_sort_values ex_token_set_ratio ex_candidates))
   \<and> threshold \<le> compute_fuzzy_score ex_token_set_ratio (ex_candidates ! 1)
   \<and> (\<exists>t \<in> set (df_top ex_sort_values ex_token_set_ratio ex_candidates).
          c_row_id t = c_row_id (ex_candidates ! 1) \<and> c_store t = c_store (ex_candidates ! 1))"
proof -
  let ?r = "ex_recipes ! 0" and ?p = "ex_products ! 0"
  let ?t = "hd (df_top ex_sort_values ex_token_set_ratio ex_candidates)"
  have sv: "descending ex_sort_values (df_filtered (score_candidates ex_token_set_ratio ex_candidates))"
    by (rule ex_sort_values_descending)
  note inst = exact_match_in_matrix_best_name_in_top [OF sv, of ex_ratio "''yogurt''" ?r ex_recipes ?p
      ex_products]
  have norm: "str_lower (str_strip ''yogurt'') = ''yogurt''" by code_simp
  have hyp: "ex_ratio (str_lower (str_strip ''yogurt'')) (str_lower (str_strip ''yogurt'')) = 1
      \<and> ?r \<in> set ex_recipes \<and> r_ingredient_concept ?r = Some ''yogurt''
      \<and> ?p \<in> set ex_products \<and> product_concept ?p = Some (str_lower (str_strip ''yogurt''))"
    unfolding norm by (simp add: ex_ratio_def ex_recipes_def ex_products_def)
  have fields: "r_row_id ?r = 0" "r_recipe ?r = ''Greek Yogurt & Honey''" "store ?p = 1024"
    "article ?p = 11" "product_name ?p = ''volle yoghurt''"
    by (simp_all add: ex_recipes_def ex_products_def)
  from inst hyp have a: "\<lparr>fm_row_id = 0, fm_recipe = ''Greek Yogurt & Honey'', fm_ingredient = ''yogurt'',
     fm_store = 1024, fm_product_article = 11, fm_product_name = ''volle yoghurt'',
     fm_product_concept = ''yogurt'', fm_fuzzy_score = 100\<rparr>
       \<in> set (matching_matrix_fuzzy ex_ratio ex_recipes ex_products)"
    unfolding norm fields by blast
  have mem: "?t \<in> set (df_top ex_sort_values ex_token_set_ratio ex_candidates)" by code_simp
  have key: "ex_candidates ! 0 \<in> set ex_candidates"
    "c_row_id (ex_candidates ! 0) = c_row_id ?t \<and> c_store (ex_candidates ! 0) = c_store ?t"
    by code_simp+
  from inst mem have b: "threshold \<le> c_fuzzy_score ?t
        \<and> (\<forall>m \<in> set ex_candidates. c_row_id m = c_row_id ?t \<and> c_store m = c_store ?t
              \<longrightarrow> compute_fuzzy_score ex_token_set_ratio m \<le> c_fuzzy_score ?t)"
    by blast
  with key have c: "compute_fuzzy_score ex_token_set_ratio (ex_candidates ! 0) \<le> c_fuzzy_score ?t"
    by blast
  have kept: "ex_candidates ! 1 \<in> set ex_candidates"
    "threshold \<le> compute_fuzzy_score ex_token_set_ratio (ex_candidates ! 1)"
    by code_simp+
  with inst have d: "\<exists>t \<in> set (df_top ex_sort_values ex_token_set_ratio ex_candidates).
          c_row_id t = c_row_id (ex_candidates ! 1) \<and> c_store t = c_store (ex_candidates ! 1)"
    by blast
  from sv a mem b c kept(2) d show ?thesis by blast
qed

end
